theory Spec2Isabelle
  imports Main "HOL-Library.Sublist" "HOL-Library.Word"
begin

unbundle bit_operations_syntax

section \<open>Values, documents and the store\<close>

text \<open>
  The server of \<^verbatim>\<open>index.js\<close> is an Express application over three Mongoose models.
  A handler is modelled as a function from the request and the database to the response
  and the database after it. An ObjectId is a natural number; the database hands out
  the next unused one.

  A request is what the handler sees, after \<^verbatim>\<open>express.json\<close> or \<^verbatim>\<open>multer\<close> has parsed
  the body. A JavaScript number is an IEEE 754 double, modelled by its 64 bits: the sign,
  eleven bits of exponent and fifty-two of fraction. The handlers copy numbers and test
  them for truthiness; they do no arithmetic.
\<close>

type_synonym oid = nat

type_synonym double = "64 word"

text \<open>Plus and minus zero; and the NaNs, which have all exponent bits set and a fraction.\<close>

definition is_zero :: "double \<Rightarrow> bool" where
  "is_zero d = (d = 0 \<or> d = 0x8000000000000000)"

definition is_nan :: "double \<Rightarrow> bool" where
  "is_nan d =
     (d AND 0x7FF0000000000000 = 0x7FF0000000000000 \<and> d AND 0x000FFFFFFFFFFFFF \<noteq> 0)"

datatype jsval = JUndefined | JStr string | JNum double

text \<open>JavaScript truthiness, as used by \<^verbatim>\<open>x || y\<close>, \<^verbatim>\<open>if (x)\<close> and \<^verbatim>\<open>x ? a : b\<close>.\<close>

fun truthy :: "jsval \<Rightarrow> bool" where
  "truthy JUndefined = False"
| "truthy (JStr s) = (s \<noteq> [])"
| "truthy (JNum d) = (\<not> is_zero d \<and> \<not> is_nan d)"

text \<open>A text field of a request: absent (\<open>None\<close>, JavaScript's undefined) or a string.\<close>

fun truthy_str :: "string option \<Rightarrow> bool" where
  "truthy_str None = False"
| "truthy_str (Some s) = (s \<noteq> [])"

record user =
  user_id :: oid
  username :: string
  email :: string
  password :: string
  profileImage :: "string option"

record product =
  product_id :: oid
  name :: string
  price :: double
  category :: string
  description :: string
  image_name :: "string option"

record order =
  order_id :: oid
  productId :: oid
  userId :: oid
  quantity :: double
  status :: string
  createdAt :: nat

record db =
  users :: "user list"
  products :: "product list"
  orders :: "order list"
  next_oid :: oid

subsection \<open>The libraries the server calls\<close>

text \<open>
  \<^verbatim>\<open>jsonwebtoken\<close>, \<^verbatim>\<open>bcrypt\<close>, JavaScript's \<^verbatim>\<open>Number\<close> on strings and the
  regular-expression engine of the database are not code of the server. They are
  parameters of the model: \<open>jwt_sign payload secret expiresIn clock\<close> and
  \<open>jwt_verify token secret clock\<close> take the clock in seconds, \<open>bcrypt_hash data rounds
  salt\<close> takes the salt the library draws at random, \<open>js_Number\<close> is a NaN for a
  string that is not a number, \<open>pcre_compiles pattern\<close> says whether the engine accepts the
  pattern and \<open>pcre_search_i pattern subject\<close> whether it matches somewhere in the
  subject, ignoring case.
\<close>

record jwt_payload =
  claim_id :: oid
  claim_username :: string

record jwt_decoded = jwt_payload +
  iat :: nat
  exp :: nat

datatype jwt_error = JsonWebTokenError | TokenExpiredError | NotBeforeError

record libs =
  jwt_sign :: "jwt_payload \<Rightarrow> string \<Rightarrow> nat \<Rightarrow> nat \<Rightarrow> string"
  jwt_verify :: "string \<Rightarrow> string \<Rightarrow> nat \<Rightarrow> jwt_error + jwt_decoded"
  bcrypt_hash :: "string \<Rightarrow> nat \<Rightarrow> string \<Rightarrow> string"
  bcrypt_compare :: "string \<Rightarrow> string \<Rightarrow> bool"
  js_Number :: "string \<Rightarrow> double"
  pcre_compiles :: "string \<Rightarrow> bool"
  pcre_search_i :: "string \<Rightarrow> string \<Rightarrow> bool"

text \<open>The environment; a variable that is not set is the empty string.\<close>

record env =
  JWT_SECRET :: string

subsection \<open>Requests and responses\<close>

text \<open>
  One record for Express's \<^verbatim>\<open>req\<close>: the authorization header, the route parameter
  (\<open>None\<close> when it does not cast to an ObjectId), the fields of the body the handlers
  destructure, the uploaded file's name and the \<^verbatim>\<open>query\<close> parameter of the URL.
  \<open>body_userId\<close> is a field a client may send; no handler reads it.
\<close>

record request =
  authorization :: "string option"
  param_id :: "oid option"
  body_username :: "string option"
  body_email :: "string option"
  body_password :: "string option"
  body_name :: "string option"
  body_price :: jsval
  body_category :: "string option"
  body_description :: "string option"
  body_productId :: "oid option"
  body_userId :: "oid option"
  body_quantity :: jsval
  body_status :: "string option"
  file_name :: "string option"
  query_query :: "string option"

text \<open>
  A response body. \<open>StatusText\<close> is what \<^verbatim>\<open>res.sendStatus\<close> sends; \<open>ErrorMessage\<close> is
  \<^verbatim>\<open>{ message: error.message }\<close> with a text chosen by a library. A populated order
  carries the product its \<open>productId\<close> resolves to, or nothing (null) when none does.
\<close>

datatype resp_body =
    StatusText
  | Message string
  | ErrorMessage
  | LoginSuccess string string
  | UserDoc user
  | UserList "user list"
  | ProductDoc product
  | ProductList "product list"
  | OrderDoc order
  | PopulatedOrder order "product option"
  | PopulatedOrders "(order \<times> product option) list"

record response =
  res_status :: nat
  res_body :: resp_body

definition sendStatus :: "nat \<Rightarrow> response" where
  "sendStatus code = \<lparr>res_status = code, res_body = StatusText\<rparr>"

definition json :: "nat \<Rightarrow> resp_body \<Rightarrow> response" where
  "json code b = \<lparr>res_status = code, res_body = b\<rparr>"

section \<open>Token issue and the authentication middleware\<close>

text \<open>
  \<^verbatim>\<open>generateToken\<close>: the payload is the user's id and username, the lifetime one hour.
  This is the token \<^verbatim>\<open>jwt.sign\<close> returns; it throws instead when the secret is empty,
  which \<open>login\<close>, the only caller, accounts for.
\<close>

definition generateToken :: "libs \<Rightarrow> env \<Rightarrow> user \<Rightarrow> nat \<Rightarrow> string" where
  "generateToken L e u clock =
     jwt_sign L \<lparr>claim_id = user_id u, claim_username = username u\<rparr> (JWT_SECRET e) 3600 clock"

text \<open>JavaScript's \<^verbatim>\<open>s.split(" ")\<close>: the pieces between single spaces, empty ones kept.\<close>

fun split_space :: "string \<Rightarrow> string list" where
  "split_space [] = [[]]"
| "split_space (c # cs) =
     (if c = CHR '' '' then [] # split_space cs
      else (case split_space cs of [] \<Rightarrow> [[c]] | w # ws \<Rightarrow> (c # w) # ws))"

text \<open>\<^verbatim>\<open>req.headers["authorization"]?.split(" ")[1]\<close>; \<open>None\<close> is undefined.\<close>

definition header_token :: "string option \<Rightarrow> string option" where
  "header_token h =
     (case h of
        None \<Rightarrow> None
      | Some s \<Rightarrow> (case split_space s of _ # t # _ \<Rightarrow> Some t | _ \<Rightarrow> None))"

text \<open>
  \<^verbatim>\<open>authenticateToken\<close>: \<open>Inl\<close> is the response it sends itself, \<open>Inr\<close> the decoded
  token it stores in \<^verbatim>\<open>req.user\<close> before calling \<^verbatim>\<open>next()\<close>.
\<close>

definition authenticateToken ::
  "libs \<Rightarrow> env \<Rightarrow> nat \<Rightarrow> request \<Rightarrow> response + jwt_decoded" where
  "authenticateToken L e clock req =
     (case header_token (authorization req) of
        None \<Rightarrow> Inl (sendStatus 401)
      | Some token \<Rightarrow>
          if token = [] then Inl (sendStatus 401)
          else (case jwt_verify L token (JWT_SECRET e) clock of
                  Inl err \<Rightarrow> Inl (sendStatus 403)
                | Inr u \<Rightarrow> Inr u))"

text \<open>A route guarded by the middleware: the handler runs only after \<^verbatim>\<open>next()\<close>.\<close>

definition guarded ::
  "libs \<Rightarrow> env \<Rightarrow> nat \<Rightarrow> (jwt_decoded \<Rightarrow> request \<Rightarrow> db \<Rightarrow> response \<times> db) \<Rightarrow>
   request \<Rightarrow> db \<Rightarrow> response \<times> db" where
  "guarded L e clock handler req s =
     (case authenticateToken L e clock req of
        Inl r \<Rightarrow> (r, s)
      | Inr u \<Rightarrow> handler u req s)"

section \<open>The collections\<close>

text \<open>
  \<^verbatim>\<open>findById\<close>, the write of a changed document and \<^verbatim>\<open>findByIdAndDelete\<close> act on the
  first document with the id.
\<close>

fun update_first :: "('a \<Rightarrow> bool) \<Rightarrow> 'a \<Rightarrow> 'a list \<Rightarrow> 'a list" where
  "update_first P y [] = []"
| "update_first P y (x # xs) = (if P x then y # xs else x # update_first P y xs)"

fun remove_first :: "('a \<Rightarrow> bool) \<Rightarrow> 'a list \<Rightarrow> 'a list" where
  "remove_first P [] = []"
| "remove_first P (x # xs) = (if P x then xs else x # remove_first P xs)"

text \<open>\<^verbatim>\<open>x || d\<close> for a text field \<open>x\<close>: an absent or empty \<open>x\<close> gives \<open>d\<close>.\<close>

fun or_else :: "string option \<Rightarrow> string \<Rightarrow> string" where
  "or_else None d = d"
| "or_else (Some s) d = (if s = [] then d else s)"

text \<open>
  The value a new document gets at a text path: an absent field leaves the path empty,
  which the \<^verbatim>\<open>required\<close> validator rejects like the empty string.
\<close>

fun field_text :: "string option \<Rightarrow> string" where
  "field_text None = []"
| "field_text (Some s) = s"

text \<open>
  Mongoose's cast of a value to a Number path. \<open>None\<close> stands for both outcomes that
  make \<^verbatim>\<open>save\<close> reject the document: no value where one is required (undefined, the
  empty string) and a cast error (a string that is not a number, or NaN).
\<close>

fun cast_number :: "libs \<Rightarrow> jsval \<Rightarrow> double option" where
  "cast_number L JUndefined = None"
| "cast_number L (JNum d) = (if is_nan d then None else Some d)"
| "cast_number L (JStr s) =
     (if s = [] \<or> is_nan (js_Number L s) then None else Some (js_Number L s))"

section \<open>Users\<close>

definition findById_user :: "user list \<Rightarrow> oid \<Rightarrow> user option" where
  "findById_user us i = List.find (\<lambda>u. user_id u = i) us"

text \<open>
  \<^verbatim>\<open>User.findOne({ $or: [{ username }, { email }] })\<close>. Every stored user has both
  fields, so an absent field of the request matches no document.
\<close>

definition find_username_or_email :: "user list \<Rightarrow> string option \<Rightarrow> string option \<Rightarrow> user option" where
  "find_username_or_email us un em =
     List.find (\<lambda>u. Some (username u) = un \<or> Some (email u) = em) us"

definition find_email :: "user list \<Rightarrow> string option \<Rightarrow> user option" where
  "find_email us em = List.find (\<lambda>u. Some (email u) = em) us"

text \<open>The schema: three required strings, and a unique index on username and on email.\<close>

definition validate_user :: "user \<Rightarrow> bool" where
  "validate_user u = (username u \<noteq> [] \<and> email u \<noteq> [] \<and> password u \<noteq> [])"

definition unique_violation :: "user list \<Rightarrow> user \<Rightarrow> bool" where
  "unique_violation us u =
     list_ex (\<lambda>x. user_id x \<noteq> user_id u \<and> (username x = username u \<or> email x = email u)) us"

text \<open>\<^verbatim>\<open>save\<close> of a new and of a loaded user; \<open>None\<close> when it throws.\<close>

definition save_new_user :: "user \<Rightarrow> db \<Rightarrow> db option" where
  "save_new_user u s =
     (if validate_user u \<and> \<not> unique_violation (users s) u
      then Some (s\<lparr>users := users s @ [u], next_oid := Suc (next_oid s)\<rparr>)
      else None)"

definition save_user :: "user \<Rightarrow> db \<Rightarrow> db option" where
  "save_user u s =
     (if validate_user u \<and> \<not> unique_violation (users s) u
      then Some (s\<lparr>users := update_first (\<lambda>x. user_id x = user_id u) u (users s)\<rparr>)
      else None)"

text \<open>\<^verbatim>\<open>hashPassword\<close>: bcrypt with ten salt rounds.\<close>

definition hashPassword :: "libs \<Rightarrow> string \<Rightarrow> string \<Rightarrow> string" where
  "hashPassword L salt pw = bcrypt_hash L pw 10 salt"

text \<open>
  \<^verbatim>\<open>POST /api/users/register\<close>. \<^verbatim>\<open>bcrypt.hash\<close> throws when it is given no data, and
  the handler's \<^verbatim>\<open>catch\<close> answers 500.
\<close>

definition register_user :: "libs \<Rightarrow> string \<Rightarrow> request \<Rightarrow> db \<Rightarrow> response \<times> db" where
  "register_user L salt req s =
     (case find_username_or_email (users s) (body_username req) (body_email req) of
        Some existingUser \<Rightarrow> (json 400 (Message ''Username or email already exists''), s)
      | None \<Rightarrow>
          (case body_password req of
             None \<Rightarrow> (json 500 (Message ''User registration failed''), s)
           | Some pw \<Rightarrow>
               (case save_new_user
                       \<lparr>user_id = next_oid s,
                        username = field_text (body_username req),
                        email = field_text (body_email req),
                        password = hashPassword L salt pw,
                        profileImage = file_name req\<rparr> s of
                  None \<Rightarrow> (json 500 (Message ''User registration failed''), s)
                | Some s' \<Rightarrow> (json 201 (Message ''User registered successfully''), s'))))"

text \<open>\<^verbatim>\<open>GET /api/users\<close> and \<^verbatim>\<open>GET /api/users/:_id\<close>: the documents as stored.\<close>

definition get_users :: "request \<Rightarrow> db \<Rightarrow> response \<times> db" where
  "get_users req s = (json 200 (UserList (users s)), s)"

definition get_user :: "request \<Rightarrow> db \<Rightarrow> response \<times> db" where
  "get_user req s =
     (case param_id req of
        None \<Rightarrow> (json 500 ErrorMessage, s)
      | Some i \<Rightarrow>
          (case findById_user (users s) i of
             None \<Rightarrow> (json 404 (Message ''User not found''), s)
           | Some u \<Rightarrow> (json 200 (UserDoc u), s)))"

text \<open>
  \<^verbatim>\<open>PUT /api/users/:_id\<close>. Removing the old image file (\<^verbatim>\<open>fs.unlink\<close>) touches neither
  the response nor the database and is left out.
\<close>

definition update_user :: "libs \<Rightarrow> string \<Rightarrow> request \<Rightarrow> db \<Rightarrow> response \<times> db" where
  "update_user L salt req s =
     (case param_id req of
        None \<Rightarrow> (json 500 (Message ''Failed to update user''), s)
      | Some i \<Rightarrow>
          (case findById_user (users s) i of
             None \<Rightarrow> (json 404 (Message ''User not found''), s)
           | Some u \<Rightarrow>
               let u1 = u\<lparr>username := or_else (body_username req) (username u),
                          email := or_else (body_email req) (email u)\<rparr>;
                   u2 = (case body_password req of
                           None \<Rightarrow> u1
                         | Some pw \<Rightarrow> if pw = [] then u1
                                      else u1\<lparr>password := hashPassword L salt pw\<rparr>);
                   u3 = (if truthy_str (file_name req)
                         then u2\<lparr>profileImage := file_name req\<rparr> else u2)
               in (case save_user u3 s of
                     None \<Rightarrow> (json 500 (Message ''Failed to update user''), s)
                   | Some s' \<Rightarrow> (json 200 (UserDoc u3), s'))))"

text \<open>\<^verbatim>\<open>DELETE /api/users/:id\<close>.\<close>

definition delete_user :: "request \<Rightarrow> db \<Rightarrow> response \<times> db" where
  "delete_user req s =
     (case param_id req of
        None \<Rightarrow> (json 500 (Message ''Failed to delete user''), s)
      | Some i \<Rightarrow>
          (case findById_user (users s) i of
             None \<Rightarrow> (json 404 (Message ''User not found''), s)
           | Some u \<Rightarrow>
               (json 200 (Message ''User deleted successfully''),
                s\<lparr>users := remove_first (\<lambda>x. user_id x = i) (users s)\<rparr>)))"

text \<open>
  \<^verbatim>\<open>POST /api/users/login\<close>. \<^verbatim>\<open>bcrypt.compare\<close> is reached only when a user was found
  (\<^verbatim>\<open>||\<close> short-circuits); given no data it throws, and the \<^verbatim>\<open>catch\<close> answers 500.
  So it does when \<^verbatim>\<open>jwt.sign\<close> throws, which it does for a secret that is empty or
  not set.
\<close>

definition login :: "libs \<Rightarrow> env \<Rightarrow> nat \<Rightarrow> request \<Rightarrow> db \<Rightarrow> response \<times> db" where
  "login L e clock req s =
     (case find_email (users s) (body_email req) of
        None \<Rightarrow> (json 400 (Message ''Invalid email or password''), s)
      | Some u \<Rightarrow>
          (case body_password req of
             None \<Rightarrow> (json 500 (Message ''Login failed''), s)
           | Some pw \<Rightarrow>
               if \<not> bcrypt_compare L pw (password u)
               then (json 400 (Message ''Invalid email or password''), s)
               else if JWT_SECRET e = [] then (json 500 (Message ''Login failed''), s)
               else (json 200 (LoginSuccess ''Login successful'' (generateToken L e u clock)), s)))"

section \<open>Products\<close>

definition findById_product :: "product list \<Rightarrow> oid \<Rightarrow> product option" where
  "findById_product ps i = List.find (\<lambda>p. product_id p = i) ps"

text \<open>The schema: name, category and description are required strings.\<close>

definition validate_product :: "product \<Rightarrow> bool" where
  "validate_product p = (name p \<noteq> [] \<and> category p \<noteq> [] \<and> description p \<noteq> [])"

text \<open>\<^verbatim>\<open>POST /api/products\<close>; a document that fails validation is answered 400.\<close>

definition create_product :: "libs \<Rightarrow> request \<Rightarrow> db \<Rightarrow> response \<times> db" where
  "create_product L req s =
     (case cast_number L (body_price req) of
        None \<Rightarrow> (json 400 ErrorMessage, s)
      | Some pr \<Rightarrow>
          let newProduct =
                \<lparr>product_id = next_oid s,
                 name = field_text (body_name req),
                 price = pr,
                 category = field_text (body_category req),
                 description = field_text (body_description req),
                 image_name = file_name req\<rparr>
          in if validate_product newProduct
             then (json 201 (ProductDoc newProduct),
                   s\<lparr>products := products s @ [newProduct], next_oid := Suc (next_oid s)\<rparr>)
             else (json 400 ErrorMessage, s))"

subsection \<open>The name filter of the product list\<close>












text \<open>\<^verbatim>\<open>GET /api/products/:_id\<close>.\<close>

definition get_product :: "request \<Rightarrow> db \<Rightarrow> response \<times> db" where
  "get_product req s =
     (case param_id req of
        None \<Rightarrow> (json 500 ErrorMessage, s)
      | Some i \<Rightarrow>
          (case findById_product (products s) i of
             None \<Rightarrow> (json 404 (Message ''Product not found''), s)
           | Some p \<Rightarrow> (json 200 (ProductDoc p), s)))"

text \<open>
  \<^verbatim>\<open>PUT /api/products/:_id\<close>: each of the four fields is \<^verbatim>\<open>field || product.field\<close>;
  the price is cast when it is assigned, and a failed cast makes \<^verbatim>\<open>save\<close> throw. The
  removal of the old image file is left out, as for users.
\<close>

definition update_product :: "libs \<Rightarrow> request \<Rightarrow> db \<Rightarrow> response \<times> db" where
  "update_product L req s =
     (case param_id req of
        None \<Rightarrow> (json 400 ErrorMessage, s)
      | Some i \<Rightarrow>
          (case findById_product (products s) i of
             None \<Rightarrow> (json 404 (Message ''Product not found''), s)
           | Some p \<Rightarrow>
               (case (if truthy (body_price req) then cast_number L (body_price req)
                      else Some (price p)) of
                  None \<Rightarrow> (json 400 ErrorMessage, s)
                | Some pr \<Rightarrow>
                    let p1 = p\<lparr>name := or_else (body_name req) (name p),
                               price := pr,
                               category := or_else (body_category req) (category p),
                               description := or_else (body_description req) (description p)\<rparr>;
                        p2 = (if truthy_str (file_name req)
                              then p1\<lparr>image_name := file_name req\<rparr> else p1)
                    in if validate_product p2
                       then (json 200 (ProductDoc p2),
                             s\<lparr>products := update_first (\<lambda>x. product_id x = i) p2 (products s)\<rparr>)
                       else (json 400 ErrorMessage, s))))"

text \<open>\<^verbatim>\<open>DELETE /api/products/:id\<close>.\<close>

definition delete_product :: "request \<Rightarrow> db \<Rightarrow> response \<times> db" where
  "delete_product req s =
     (case param_id req of
        None \<Rightarrow> (json 500 (Message ''Failed to delete product''), s)
      | Some i \<Rightarrow>
          (case findById_product (products s) i of
             None \<Rightarrow> (json 404 (Message ''Product not found''), s)
           | Some p \<Rightarrow>
               (json 200 (Message ''Product deleted successfully''),
                s\<lparr>products := remove_first (\<lambda>x. product_id x = i) (products s)\<rparr>)))"

section \<open>Orders\<close>

definition findById_order :: "order list \<Rightarrow> oid \<Rightarrow> order option" where
  "findById_order os i = List.find (\<lambda>x. order_id x = i) os"

definition status_enum :: "string list" where
  "status_enum = [''pending'', ''completed'', ''canceled'']"

definition validate_order :: "order \<Rightarrow> bool" where
  "validate_order x = (status x \<in> set status_enum)"

text \<open>\<^verbatim>\<open>populate("productId")\<close>: the product the reference resolves to, if any.\<close>

definition populate :: "product list \<Rightarrow> order \<Rightarrow> order \<times> product option" where
  "populate ps x = (x, findById_product ps (productId x))"

text \<open>
  \<^verbatim>\<open>POST /api/orders\<close>. The body gives \<open>productId\<close> and \<open>quantity\<close>; \<open>userId\<close> is
  \<^verbatim>\<open>req.user.id\<close>, the status and the creation time are the schema's defaults.
\<close>

definition create_order :: "libs \<Rightarrow> nat \<Rightarrow> jwt_decoded \<Rightarrow> request \<Rightarrow> db \<Rightarrow> response \<times> db" where
  "create_order L now u req s =
     (case body_productId req of
        None \<Rightarrow> (json 400 ErrorMessage, s)
      | Some pid \<Rightarrow>
          (case cast_number L (body_quantity req) of
             None \<Rightarrow> (json 400 ErrorMessage, s)
           | Some q \<Rightarrow>
               let newOrder =
                     \<lparr>order_id = next_oid s, productId = pid, userId = claim_id u,
                      quantity = q, status = ''pending'', createdAt = now\<rparr>
               in (json 201 (OrderDoc newOrder),
                   s\<lparr>orders := orders s @ [newOrder], next_oid := Suc (next_oid s)\<rparr>)))"

text \<open>\<^verbatim>\<open>GET /api/orders\<close>: \<^verbatim>\<open>Order.find({ userId: req.user.id }).populate("productId")\<close>.\<close>

definition get_orders :: "jwt_decoded \<Rightarrow> request \<Rightarrow> db \<Rightarrow> response \<times> db" where
  "get_orders u req s =
     (json 200 (PopulatedOrders
        (map (populate (products s)) (filter (\<lambda>x. userId x = claim_id u) (orders s)))), s)"

text \<open>\<^verbatim>\<open>GET /api/orders/:id\<close>.\<close>

definition get_order :: "jwt_decoded \<Rightarrow> request \<Rightarrow> db \<Rightarrow> response \<times> db" where
  "get_order u req s =
     (case param_id req of
        None \<Rightarrow> (json 500 ErrorMessage, s)
      | Some i \<Rightarrow>
          (case findById_order (orders s) i of
             None \<Rightarrow> (json 404 (Message ''Order not found''), s)
           | Some x \<Rightarrow>
               (json 200 (PopulatedOrder x (findById_product (products s) (productId x))), s)))"

text \<open>
  \<^verbatim>\<open>PUT /api/orders/:id\<close>: \<^verbatim>\<open>if (quantity) order.quantity = quantity\<close> and
  \<^verbatim>\<open>if (status) order.status = status\<close>, then \<^verbatim>\<open>save\<close>, which checks the status
  against the enum.
\<close>

definition update_order :: "libs \<Rightarrow> jwt_decoded \<Rightarrow> request \<Rightarrow> db \<Rightarrow> response \<times> db" where
  "update_order L u req s =
     (case param_id req of
        None \<Rightarrow> (json 400 ErrorMessage, s)
      | Some i \<Rightarrow>
          (case findById_order (orders s) i of
             None \<Rightarrow> (json 404 (Message ''Order not found''), s)
           | Some x \<Rightarrow>
               (case (if truthy (body_quantity req) then cast_number L (body_quantity req)
                      else Some (quantity x)) of
                  None \<Rightarrow> (json 400 ErrorMessage, s)
                | Some q \<Rightarrow>
                    let x1 = x\<lparr>quantity := q\<rparr>;
                        x2 = x1\<lparr>status := or_else (body_status req) (status x1)\<rparr>
                    in if validate_order x2
                       then (json 200 (OrderDoc x2),
                             s\<lparr>orders := update_first (\<lambda>y. order_id y = i) x2 (orders s)\<rparr>)
                       else (json 400 ErrorMessage, s))))"

text \<open>\<^verbatim>\<open>DELETE /api/orders/:id\<close>.\<close>

definition delete_order :: "jwt_decoded \<Rightarrow> request \<Rightarrow> db \<Rightarrow> response \<times> db" where
  "delete_order u req s =
     (case param_id req of
        None \<Rightarrow> (json 500 (Message ''Failed to delete order''), s)
      | Some i \<Rightarrow>
          (case findById_order (orders s) i of
             None \<Rightarrow> (json 404 (Message ''Order not found''), s)
           | Some x \<Rightarrow>
               (json 200 (Message ''Order deleted successfully''),
                s\<lparr>orders := remove_first (\<lambda>y. order_id y = i) (orders s)\<rparr>)))"

text \<open>The five routes under \<^verbatim>\<open>/api/orders\<close>, each behind \<^verbatim>\<open>authenticateToken\<close>.\<close>

datatype order_route = PostOrders | GetOrders | GetOrder | PutOrder | DeleteOrder

fun order_handler ::
  "libs \<Rightarrow> nat \<Rightarrow> order_route \<Rightarrow> jwt_decoded \<Rightarrow> request \<Rightarrow> db \<Rightarrow> response \<times> db" where
  "order_handler L now PostOrders = create_order L now"
| "order_handler L now GetOrders = get_orders"
| "order_handler L now GetOrder = get_order"
| "order_handler L now PutOrder = update_order L"
| "order_handler L now DeleteOrder = delete_order"

definition orders_api ::
  "libs \<Rightarrow> env \<Rightarrow> nat \<Rightarrow> nat \<Rightarrow> order_route \<Rightarrow> request \<Rightarrow> db \<Rightarrow> response \<times> db" where
  "orders_api L e clock now route req s = guarded L e clock (order_handler L now route) req s"

text \<open>Two order documents that differ at most in quantity and status.\<close>

definition same_but_quantity_status :: "order \<Rightarrow> order \<Rightarrow> bool" where
  "same_but_quantity_status x y = (y = x\<lparr>quantity := quantity y, status := status y\<rparr>)"

text \<open>
  A partial merge of a request into a product: each text field is replaced when the
  request holds a non-empty string for it, the image when a file was uploaded, and the
  price is \<open>pr\<close>.
\<close>

definition partial_merge :: "request \<Rightarrow> product \<Rightarrow> double \<Rightarrow> product" where
  "partial_merge req p pr =
     \<lparr>product_id = product_id p,
      name = (if truthy_str (body_name req) then field_text (body_name req) else name p),
      price = pr,
      category =
        (if truthy_str (body_category req) then field_text (body_category req) else category p),
      description =
        (if truthy_str (body_description req) then field_text (body_description req)
         else description p),
      image_name = (if truthy_str (file_name req) then file_name req else image_name p)\<rparr>"

section \<open>What the server relies on in \<^verbatim>\<open>jsonwebtoken\<close>\<close>

text \<open>
  A token signed with a secret verifies under the same secret until \<open>expiresIn\<close> seconds
  after it was signed, and gives back the payload with the times of issue and expiry;
  from then on verification fails with \<open>TokenExpiredError\<close>. The library refuses an
  empty secret, so nothing is asked of it there.
\<close>

definition jwt_roundtrip :: "libs \<Rightarrow> bool" where
  "jwt_roundtrip L =
     (\<forall>p secret ttl t clock.
        secret \<noteq> [] \<longrightarrow>
        jwt_verify L (jwt_sign L p secret ttl t) secret clock =
          (if clock < t + ttl
           then Inr \<lparr>claim_id = claim_id p, claim_username = claim_username p,
                     iat = t, exp = t + ttl\<rparr>
           else Inl TokenExpiredError))"

text \<open>A token is a non-empty string without spaces (three base64url parts and two dots).\<close>

definition jwt_compact :: "libs \<Rightarrow> bool" where
  "jwt_compact L =
     (\<forall>p secret ttl t. jwt_sign L p secret ttl t \<noteq> [] \<and> CHR '' '' \<notin> set (jwt_sign L p secret ttl t))"

section \<open>What the server relies on in \<^verbatim>\<open>bcrypt\<close>\<close>

text \<open>A hash is never the empty string, and never the data it was computed from.\<close>

definition bcrypt_nonempty :: "libs \<Rightarrow> bool" where
  "bcrypt_nonempty L = (\<forall>data rounds salt. bcrypt_hash L data rounds salt \<noteq> [])"

definition bcrypt_not_identity :: "libs \<Rightarrow> bool" where
  "bcrypt_not_identity L = (\<forall>data rounds salt. bcrypt_hash L data rounds salt \<noteq> data)"

section \<open>The substring reading of the name filter\<close>


section \<open>A small instance of the libraries\<close>

text \<open>
  An instance of \<open>libs\<close> on which the model can be evaluated, and which shows that
  the properties above can hold together. Its token lists, in unary and each
  followed by a dot, the id, the time of issue, the lifetime, the length of the username,
  the characters of the username and those of the secret. Its hash is the salt, a
  dollar sign and the data. Neither is a cryptographic scheme. Its \<open>Number\<close> knows the
  strings \<^verbatim>\<open>0\<close>, \<^verbatim>\<open>5\<close> and \<^verbatim>\<open>10\<close> and gives NaN for every other string; its
  regular-expression engine accepts no pattern.
\<close>

text \<open>The doubles 1, 2, 3, 5 and 10, and a NaN.\<close>

definition num_1 :: double where "num_1 = 0x3FF0000000000000"

definition num_2 :: double where "num_2 = 0x4000000000000000"

definition num_3 :: double where "num_3 = 0x4008000000000000"

definition num_5 :: double where "num_5 = 0x4014000000000000"

definition num_10 :: double where "num_10 = 0x4024000000000000"

definition num_nan :: double where "num_nan = 0x7FF8000000000000"

definition ref_Number :: "string \<Rightarrow> double" where
  "ref_Number s =
     (if s = ''0'' then 0 else if s = ''5'' then num_5 else if s = ''10'' then num_10
      else num_nan)"

fun unary :: "nat list \<Rightarrow> string" where
  "unary [] = []"
| "unary (n # ns) = replicate n (CHR ''1'') @ CHR ''.'' # unary ns"

fun runs :: "string \<Rightarrow> nat list" where
  "runs [] = [0]"
| "runs (c # cs) =
     (if c = CHR ''.'' then 0 # runs cs
      else (case runs cs of [] \<Rightarrow> [1] | n # ns \<Rightarrow> Suc n # ns))"

definition ref_sign :: "jwt_payload \<Rightarrow> string \<Rightarrow> nat \<Rightarrow> nat \<Rightarrow> string" where
  "ref_sign p secret ttl t =
     unary (claim_id p # t # ttl # length (claim_username p) #
            map of_char (claim_username p) @ map of_char secret)"

definition ref_verify :: "string \<Rightarrow> string \<Rightarrow> nat \<Rightarrow> jwt_error + jwt_decoded" where
  "ref_verify token secret clock =
     (case butlast (runs token) of
        i # t # ttl # k # rest \<Rightarrow>
          if k \<le> length rest \<and> map char_of (drop k rest) = secret
          then (if clock < t + ttl
                then Inr \<lparr>claim_id = i, claim_username = map char_of (take k rest),
                          iat = t, exp = t + ttl\<rparr>
                else Inl TokenExpiredError)
          else Inl JsonWebTokenError
      | _ \<Rightarrow> Inl JsonWebTokenError)"

definition ref_hash :: "string \<Rightarrow> nat \<Rightarrow> string \<Rightarrow> string" where
  "ref_hash data rounds salt = salt @ CHR ''$'' # data"

definition ref_compare :: "string \<Rightarrow> string \<Rightarrow> bool" where
  "ref_compare data h = (dropWhile (\<lambda>c. c \<noteq> CHR ''$'') h = CHR ''$'' # data)"

definition ref_libs :: libs where
  "ref_libs =
     \<lparr>jwt_sign = ref_sign, jwt_verify = ref_verify,
      bcrypt_hash = ref_hash, bcrypt_compare = ref_compare,
      js_Number = ref_Number,
      pcre_compiles = (\<lambda>q. False), pcre_search_i = (\<lambda>q subject. False)\<rparr>"

subsection \<open>Sample data\<close>

definition no_request :: request where
  "no_request =
     \<lparr>authorization = None, param_id = None,
      body_username = None, body_email = None, body_password = None,
      body_name = None, body_price = JUndefined, body_category = None,
      body_description = None, body_productId = None, body_userId = None,
      body_quantity = JUndefined, body_status = None,
      file_name = None, query_query = None\<rparr>"

definition empty_db :: db where
  "empty_db = \<lparr>users = [], products = [], orders = [], next_oid = 0\<rparr>"

definition env0 :: env where
  "env0 = \<lparr>JWT_SECRET = ''k''\<rparr>"

definition alice :: user where
  "alice = \<lparr>user_id = 1, username = ''alice'', email = ''a@x.com'',
            password = ref_hash ''pw1'' 10 ''s'', profileImage = None\<rparr>"

definition bob :: user where
  "bob = \<lparr>user_id = 2, username = ''bob'', email = ''b@x.com'',
          password = ref_hash ''pw2'' 10 ''s'', profileImage = None\<rparr>"

definition mug :: product where
  "mug = \<lparr>product_id = 3, name = ''Mug'', price = num_5, category = ''kitchen'',
          description = ''a mug'', image_name = None\<rparr>"

definition alice_order :: order where
  "alice_order = \<lparr>order_id = 4, productId = 3, userId = 1, quantity = num_2,
                  status = ''pending'', createdAt = 0\<rparr>"

definition bob_order :: order where
  "bob_order = \<lparr>order_id = 5, productId = 9, userId = 2, quantity = num_1,
                status = ''pending'', createdAt = 0\<rparr>"

definition shop_db :: db where
  "shop_db = \<lparr>users = [alice, bob], products = [mug], orders = [alice_order, bob_order],
              next_oid = 10\<rparr>"

definition alice_token :: string where
  "alice_token = generateToken ref_libs env0 alice 100"

definition as_alice :: request where
  "as_alice = no_request\<lparr>authorization := Some (''Bearer '' @ alice_token)\<rparr>"

definition reg_alice :: request where
  "reg_alice = no_request\<lparr>body_username := Some ''alice'', body_email := Some ''a@x.com'',
                           body_password := Some ''pw1''\<rparr>"

definition alice_claims :: jwt_decoded where
  "alice_claims = \<lparr>claim_id = 1, claim_username = ''alice'', iat = 100, exp = 3700\<rparr>"

definition bob_claims :: jwt_decoded where
  "bob_claims = \<lparr>claim_id = 2, claim_username = ''bob'', iat = 0, exp = 3600\<rparr>"

section \<open>Lemmas on the collections and the reference libraries\<close>

lemma find_Some_P: "List.find P xs = Some x \<Longrightarrow> P x \<and> x \<in> set xs"
  by (induction xs) (auto split: if_splits)

lemma find_update_first:
  "List.find P xs = Some x \<Longrightarrow> P y \<Longrightarrow> List.find P (update_first P y xs) = Some y"
  by (induction xs) (auto split: if_splits)

lemma update_first_rel:
  "List.find P xs = Some x \<Longrightarrow> R x y \<Longrightarrow> (\<And>z. R z z) \<Longrightarrow> list_all2 R xs (update_first P y xs)"
  by (induction xs) (auto split: if_splits simp: list_all2_refl)

lemma update_first_map:
  "List.find P xs = Some x \<Longrightarrow> f y = f x \<Longrightarrow> map f (update_first P y xs) = map f xs"
  by (induction xs) (auto split: if_splits)

lemma sample_doubles:
  "\<not> is_zero num_1" "\<not> is_nan num_1" "\<not> is_zero num_2" "\<not> is_nan num_2"
  "\<not> is_zero num_3" "\<not> is_nan num_3" "\<not> is_zero num_5" "\<not> is_nan num_5"
  "\<not> is_zero num_10" "\<not> is_nan num_10" "is_zero 0" "\<not> is_nan 0" "is_nan num_nan"
  by (simp_all add: is_zero_def is_nan_def num_1_def num_2_def num_3_def num_5_def num_10_def
        num_nan_def)

lemma runs_ones: "runs (replicate n (CHR ''1'') @ CHR ''.'' # rest) = n # runs rest"
  by (induction n) auto

lemma runs_unary: "runs (unary ns) = ns @ [0]"
  by (induction ns) (auto simp: runs_ones)

lemma unary_chars: "set (unary ns) \<subseteq> {CHR ''1'', CHR ''.''}"
  by (induction ns) auto

lemma ref_verify_sign:
  "ref_verify (ref_sign p secret ttl t) secret clock =
     (if clock < t + ttl
      then Inr \<lparr>claim_id = claim_id p, claim_username = claim_username p,
                iat = t, exp = t + ttl\<rparr>
      else Inl TokenExpiredError)"
  unfolding ref_verify_def ref_sign_def runs_unary
  by (simp add: comp_def butlast_append)

lemma ref_roundtrip: "jwt_roundtrip ref_libs"
  unfolding jwt_roundtrip_def
  by (simp add: ref_libs_def ref_verify_sign)

lemma ref_compact: "jwt_compact ref_libs"
proof -
  have "CHR '' '' \<notin> set (unary ns)" for ns
    using unary_chars [of ns] by auto
  moreover have "unary (n # ns) \<noteq> []" for n ns
    by simp
  ultimately show ?thesis
    unfolding jwt_compact_def by (simp add: ref_libs_def ref_sign_def)
qed

section \<open>The middleware\<close>

lemma split_space_single: "CHR '' '' \<notin> set t \<Longrightarrow> split_space t = [t]"
  by (induction t) (auto split: list.splits)

lemma header_token_bearer:
  "CHR '' '' \<notin> set t \<Longrightarrow> header_token (Some (''Bearer '' @ t)) = Some t"
  by (simp add: header_token_def split_space_single)

text \<open>What the middleware does with a token the server issued itself.\<close>

lemma authenticate_issued:
  assumes "jwt_roundtrip L" and "jwt_compact L" and "JWT_SECRET e \<noteq> []"
    and "authorization req = Some (''Bearer '' @ generateToken L e u t0)"
  shows "authenticateToken L e clock req =
           (if clock < t0 + 3600
            then Inr \<lparr>claim_id = user_id u, claim_username = username u,
                      iat = t0, exp = t0 + 3600\<rparr>
            else Inl (sendStatus 403))"
proof -
  let ?tok = "generateToken L e u t0"
  have shape: "?tok \<noteq> []" "CHR '' '' \<notin> set ?tok"
    using assms(2) unfolding jwt_compact_def generateToken_def by blast+
  have tok: "header_token (authorization req) = Some ?tok"
    using assms(4) header_token_bearer [OF shape(2)] by simp
  have ver: "jwt_verify L ?tok (JWT_SECRET e) clock =
      (if clock < t0 + 3600
       then Inr \<lparr>claim_id = user_id u, claim_username = username u, iat = t0, exp = t0 + 3600\<rparr>
       else Inl TokenExpiredError)"
    using assms(1,3) unfolding jwt_roundtrip_def generateToken_def by simp
  show ?thesis
    using shape(1) tok ver by (simp add: authenticateToken_def)
qed

lemma env0_secret: "JWT_SECRET env0 \<noteq> []"
  by (simp add: env0_def)

lemma as_alice_authenticated:
  "authenticateToken ref_libs env0 200 (as_alice\<lparr>param_id := i, body_productId := p,
       body_quantity := q, body_status := st, body_userId := v\<rparr>)
     = Inr \<lparr>claim_id = 1, claim_username = ''alice'', iat = 100, exp = 3700\<rparr>"
  using authenticate_issued [OF ref_roundtrip ref_compact env0_secret, where u = alice
      and ?t0.0 = 100 and clock = 200
      and req = "as_alice\<lparr>param_id := i, body_productId := p,
       body_quantity := q, body_status := st, body_userId := v\<rparr>"]
  by (simp add: as_alice_def alice_token_def alice_def)

text \<open>
  C1. On each of the five order routes, a request without a token in its authorization
  header (no header, or no non-empty second piece after a space) is answered 401, and a
  request whose token \<^verbatim>\<open>jwt.verify\<close> rejects, for a bad signature or a passed
  expiry, is answered 403. In both cases the answer and the database do not depend on
  the handler behind the middleware, which holds for any handler \<open>h\<close>; the two answers
  differ.
\<close>

theorem orders_auth_status:
  "(header_token (authorization req) = None \<or> header_token (authorization req) = Some [] \<longrightarrow>
      orders_api L e clock now route req s = (sendStatus 401, s) \<and>
      guarded L e clock h req s = (sendStatus 401, s)) \<and>
   (header_token (authorization req) = Some token \<and> token \<noteq> [] \<and>
    jwt_verify L token (JWT_SECRET e) clock = Inl err \<longrightarrow>
      orders_api L e clock now route req s = (sendStatus 403, s) \<and>
      guarded L e clock h req s = (sendStatus 403, s)) \<and>
   res_status (sendStatus 401) = 401 \<and> res_status (sendStatus 403) = 403 \<and>
   sendStatus 401 \<noteq> sendStatus 403"
  by (auto simp: orders_api_def guarded_def authenticateToken_def sendStatus_def)

theorem orders_auth_status_witness:
  "orders_api ref_libs env0 0 0 GetOrders no_request shop_db = (sendStatus 401, shop_db) \<and>
   orders_api ref_libs env0 0 0 DeleteOrder
     (no_request\<lparr>authorization := Some ''Bearer garbage'', param_id := Some 4\<rparr>) shop_db
     = (sendStatus 403, shop_db)"
proof -
  have a: "header_token (authorization no_request) = None"
    by (simp add: no_request_def header_token_def)
  have b: "header_token (authorization
             (no_request\<lparr>authorization := Some ''Bearer garbage'', param_id := Some 4\<rparr>))
           = Some ''garbage''"
    by (simp add: header_token_def)
  have c: "jwt_verify ref_libs ''garbage'' (JWT_SECRET env0) 0 = Inl JsonWebTokenError"
    by (simp add: ref_libs_def ref_verify_def)
  from a b c show ?thesis
    using orders_auth_status [where req = no_request and L = ref_libs and e = env0
        and clock = 0 and now = 0 and route = GetOrders and s = shop_db]
      orders_auth_status [where
        req = "no_request\<lparr>authorization := Some ''Bearer garbage'', param_id := Some 4\<rparr>"
        and L = ref_libs and e = env0 and clock = 0 and now = 0 and route = DeleteOrder
        and s = shop_db and token = "''garbage''" and err = JsonWebTokenError]
    by simp
qed

text \<open>
  C3. With a token library that verifies what it signed until the lifetime has run out,
  and a signing secret that is set, the token \<^verbatim>\<open>generateToken\<close> issues for a user at
  time \<open>t0\<close>, sent back as \<^verbatim>\<open>Bearer <token>\<close>, passes the middleware at every time
  before \<open>t0 + 3600\<close> seconds, and \<^verbatim>\<open>req.user\<close> then carries exactly the user's id and
  username; from \<open>t0 + 3600\<close> on the middleware answers 403, which is not 401.
\<close>

theorem token_roundtrip:
  assumes "jwt_roundtrip L" and "jwt_compact L" and "JWT_SECRET e \<noteq> []"
    and "authorization req = Some (''Bearer '' @ generateToken L e u t0)"
  shows "(clock < t0 + 3600 \<longrightarrow>
            (\<exists>d. authenticateToken L e clock req = Inr d \<and>
                 claim_id d = user_id u \<and> claim_username d = username u)) \<and>
         (t0 + 3600 \<le> clock \<longrightarrow>
            authenticateToken L e clock req = Inl (sendStatus 403) \<and>
            orders_api L e clock now route req s = (sendStatus 403, s) \<and>
            res_status (sendStatus 403) = 403 \<and> sendStatus 403 \<noteq> sendStatus 401)"
  using authenticate_issued [OF assms, of clock]
  by (auto simp: orders_api_def guarded_def sendStatus_def)

theorem token_roundtrip_witness:
  "(\<exists>d. authenticateToken ref_libs env0 3699 as_alice = Inr d \<and>
        claim_id d = user_id alice \<and> claim_username d = username alice) \<and>
   authenticateToken ref_libs env0 3700 as_alice = Inl (sendStatus 403) \<and>
   orders_api ref_libs env0 3700 0 GetOrders as_alice shop_db = (sendStatus 403, shop_db)"
proof -
  have h: "authorization as_alice = Some (''Bearer '' @ generateToken ref_libs env0 alice 100)"
    by (simp add: as_alice_def alice_token_def)
  show ?thesis
    using token_roundtrip [OF ref_roundtrip ref_compact env0_secret h, of 3699]
      token_roundtrip [OF ref_roundtrip ref_compact env0_secret h, of 3700 0 GetOrders shop_db]
    by simp
qed

section \<open>Orders and their owner\<close>

lemma update_order_frame:
  assumes "update_order L u req s = (r, s')"
  shows "map userId (orders s') = map userId (orders s) \<and>
         list_all2 same_but_quantity_status (orders s) (orders s') \<and>
         users s' = users s \<and> products s' = products s"
proof (cases "param_id req")
  case None
  with assms show ?thesis
    by (auto simp: update_order_def list_all2_refl same_but_quantity_status_def)
next
  case (Some i)
  show ?thesis
  proof (cases "findById_order (orders s) i")
    case None
    with Some assms show ?thesis
      by (auto simp: update_order_def list_all2_refl same_but_quantity_status_def)
  next
    case found: (Some x)
    have refl: "\<And>z. same_but_quantity_status z z"
      by (simp add: same_but_quantity_status_def)
    have f: "List.find (\<lambda>y. order_id y = i) (orders s) = Some x"
      using found by (simp add: findById_order_def)
    have step: "map userId (update_first (\<lambda>y. order_id y = i) y (orders s)) = map userId (orders s) \<and>
                list_all2 same_but_quantity_status (orders s)
                  (update_first (\<lambda>y. order_id y = i) y (orders s))"
      if "same_but_quantity_status x y" for y
    proof -
      from that have "userId y = userId x"
        unfolding same_but_quantity_status_def by (cases x, cases y) simp
      with that show ?thesis
        using update_first_map [OF f, of userId y]
          update_first_rel [OF f, of same_but_quantity_status y] refl
        by simp
    qed
    have same: "same_but_quantity_status x (x\<lparr>quantity := q, status := st\<rparr>)" for q st
      by (simp add: same_but_quantity_status_def)
    from assms Some found have
      "(s' = s) \<or> (\<exists>q st. s' = s\<lparr>orders := update_first (\<lambda>y. order_id y = i)
                                     (x\<lparr>quantity := q, status := st\<rparr>) (orders s)\<rparr>)"
      by (auto simp: update_order_def Let_def split: option.splits if_splits)
    then show ?thesis
    proof
      assume "s' = s"
      then show ?thesis using refl by (simp add: list_all2_refl)
    next
      assume "\<exists>q st. s' = s\<lparr>orders := update_first (\<lambda>y. order_id y = i)
                                     (x\<lparr>quantity := q, status := st\<rparr>) (orders s)\<rparr>"
      then obtain q st where "s' = s\<lparr>orders := update_first (\<lambda>y. order_id y = i)
                                     (x\<lparr>quantity := q, status := st\<rparr>) (orders s)\<rparr>"
        by blast
      then show ?thesis using step [OF same [where q = q and st = st]] by simp
    qed
  qed
qed

text \<open>
  C2. An order created through \<^verbatim>\<open>POST /api/orders\<close> carries as user reference the id
  of the token the middleware verified; a \<open>userId\<close> sent in the body changes nothing.
  \<^verbatim>\<open>PUT /api/orders/:id\<close> leaves the user reference of every stored order as it was:
  each order after the update is the order before it up to quantity and status.
\<close>

theorem order_user_fixed:
  "(orders_api L e clock now PostOrders req s = (r, s') \<and> res_status r = 201 \<longrightarrow>
      (\<exists>d x. authenticateToken L e clock req = Inr d \<and> res_body r = OrderDoc x \<and>
             userId x = claim_id d \<and> orders s' = orders s @ [x])) \<and>
   orders_api L e clock now PostOrders (req\<lparr>body_userId := v\<rparr>) s =
     orders_api L e clock now PostOrders req s \<and>
   (orders_api L e clock now PutOrder req s = (r, s') \<longrightarrow>
      map userId (orders s') = map userId (orders s) \<and>
      list_all2 same_but_quantity_status (orders s) (orders s'))"
proof (intro conjI impI)
  assume a: "orders_api L e clock now PostOrders req s = (r, s') \<and> res_status r = 201"
  show "\<exists>d x. authenticateToken L e clock req = Inr d \<and> res_body r = OrderDoc x \<and>
             userId x = claim_id d \<and> orders s' = orders s @ [x]"
  proof (cases "authenticateToken L e clock req")
    case (Inl rej)
    then have "rej = sendStatus 401 \<or> rej = sendStatus 403"
      by (auto simp: authenticateToken_def split: option.splits if_splits sum.splits)
    with a Inl show ?thesis
      by (auto simp: orders_api_def guarded_def sendStatus_def)
  next
    case (Inr d)
    with a show ?thesis
      by (auto simp: orders_api_def guarded_def create_order_def json_def Let_def
               split: option.splits)
  qed
next
  show "orders_api L e clock now PostOrders (req\<lparr>body_userId := v\<rparr>) s =
     orders_api L e clock now PostOrders req s"
  proof -
    have "authenticateToken L e clock (req\<lparr>body_userId := v\<rparr>) = authenticateToken L e clock req"
      by (simp add: authenticateToken_def)
    moreover have "create_order L now d (req\<lparr>body_userId := v\<rparr>) s = create_order L now d req s" for d
      by (simp add: create_order_def split: option.splits)
    ultimately show ?thesis
      by (simp add: orders_api_def guarded_def split: sum.splits)
  qed
next
  assume a: "orders_api L e clock now PutOrder req s = (r, s')"
  show "map userId (orders s') = map userId (orders s)"
  proof (cases "authenticateToken L e clock req")
    case (Inl rej)
    with a show ?thesis by (auto simp: orders_api_def guarded_def)
  next
    case (Inr d)
    with a have "update_order L d req s = (r, s')"
      by (simp add: orders_api_def guarded_def)
    then show ?thesis using update_order_frame by blast
  qed
  show "list_all2 same_but_quantity_status (orders s) (orders s')"
  proof (cases "authenticateToken L e clock req")
    case (Inl rej)
    with a show ?thesis
      by (auto simp: orders_api_def guarded_def list_all2_refl same_but_quantity_status_def)
  next
    case (Inr d)
    with a have "update_order L d req s = (r, s')"
      by (simp add: orders_api_def guarded_def)
    then show ?thesis using update_order_frame by blast
  qed
qed


theorem order_user_fixed_witness:
  "(\<exists>d x. authenticateToken ref_libs env0 200
             (as_alice\<lparr>body_productId := Some 3, body_quantity := JNum num_2,
                        body_userId := Some 2\<rparr>) = Inr d \<and>
          fst (orders_api ref_libs env0 200 7 PostOrders
             (as_alice\<lparr>body_productId := Some 3, body_quantity := JNum num_2,
                        body_userId := Some 2\<rparr>) shop_db) = json 201 (OrderDoc x) \<and>
          userId x = claim_id d \<and> claim_id d = user_id alice) \<and>
   map userId (orders (snd (orders_api ref_libs env0 200 7 PutOrder
      (as_alice\<lparr>param_id := Some 5, body_quantity := JNum num_3,
                 body_status := Some ''completed'', body_userId := Some 1\<rparr>) shop_db)))
     = [user_id alice, user_id bob] \<and>
   map quantity (orders (snd (orders_api ref_libs env0 200 7 PutOrder
      (as_alice\<lparr>param_id := Some 5, body_quantity := JNum num_3,
                 body_status := Some ''completed'', body_userId := Some 1\<rparr>) shop_db)))
     = [num_2, num_3]"
proof -
  let ?post = "as_alice\<lparr>body_productId := Some 3, body_quantity := JNum num_2,
                        body_userId := Some 2\<rparr>"
  let ?put = "as_alice\<lparr>param_id := Some 5, body_quantity := JNum num_3,
                 body_status := Some ''completed'', body_userId := Some 1\<rparr>"
  let ?new = "\<lparr>order_id = 10, productId = 3, userId = 1, quantity = num_2,
               status = ''pending'', createdAt = 7\<rparr>"
  have auth1: "authenticateToken ref_libs env0 200 ?post
                 = Inr \<lparr>claim_id = 1, claim_username = ''alice'', iat = 100, exp = 3700\<rparr>"
    using as_alice_authenticated [where i = "param_id as_alice" and p = "Some 3" and q = "JNum num_2"
        and st = "body_status as_alice" and v = "Some 2"]
    by simp
  have auth2: "authenticateToken ref_libs env0 200 ?put
                 = Inr \<lparr>claim_id = 1, claim_username = ''alice'', iat = 100, exp = 3700\<rparr>"
    using as_alice_authenticated [where i = "Some 5" and p = "body_productId as_alice" and q = "JNum num_3"
        and st = "Some ''completed''" and v = "Some 1"]
    by simp
  have post: "orders_api ref_libs env0 200 7 PostOrders ?post shop_db
                = (json 201 (OrderDoc ?new),
                   shop_db\<lparr>orders := orders shop_db @ [?new], next_oid := 11\<rparr>)"
    unfolding orders_api_def guarded_def auth1
    by (simp add: create_order_def shop_db_def Let_def sample_doubles)
  have "res_status (json 201 (OrderDoc ?new)) = 201"
    by (simp add: json_def)
  with post have first: "\<exists>d x. authenticateToken ref_libs env0 200 ?post = Inr d \<and>
       res_body (json 201 (OrderDoc ?new)) = OrderDoc x \<and> userId x = claim_id d \<and>
       orders (shop_db\<lparr>orders := orders shop_db @ [?new], next_oid := 11\<rparr>) = orders shop_db @ [x]"
    using order_user_fixed [where L = ref_libs and e = env0 and clock = 200 and now = 7
        and req = ?post and s = shop_db and r = "json 201 (OrderDoc ?new)"
        and s' = "shop_db\<lparr>orders := orders shop_db @ [?new], next_oid := 11\<rparr>"]
    by blast
  have put: "map quantity (orders (snd (orders_api ref_libs env0 200 7 PutOrder ?put shop_db))) = [num_2, num_3]"
    unfolding orders_api_def guarded_def auth2
    by (simp add: update_order_def shop_db_def Let_def sample_doubles
          findById_order_def alice_order_def bob_order_def validate_order_def status_enum_def)
  have frame: "map userId (orders (snd (orders_api ref_libs env0 200 7 PutOrder ?put shop_db)))
                 = map userId (orders shop_db)"
    using order_user_fixed [where L = ref_libs and e = env0 and clock = 200 and now = 7
        and req = ?put and s = shop_db
        and r = "fst (orders_api ref_libs env0 200 7 PutOrder ?put shop_db)"
        and s' = "snd (orders_api ref_libs env0 200 7 PutOrder ?put shop_db)"]
    by simp
  from first auth1 post put frame show ?thesis
    by (auto simp: shop_db_def alice_order_def bob_order_def alice_def bob_def json_def)
qed

section \<open>Users: registration, passwords, login, reads\<close>

lemma ref_nonempty: "bcrypt_nonempty ref_libs"
  by (simp add: bcrypt_nonempty_def ref_libs_def ref_hash_def)

lemma ref_not_identity: "bcrypt_not_identity ref_libs"
proof -
  have "length (salt @ CHR ''$'' # data) \<noteq> length data" for salt data :: string
    by simp
  then have "salt @ CHR ''$'' # data \<noteq> data" for salt data :: string
    by metis
  then show ?thesis
    by (simp add: bcrypt_not_identity_def ref_libs_def ref_hash_def)
qed

lemma register_conflict:
  assumes "\<exists>x\<in>set (users s). Some (username x) = body_username req \<or> Some (email x) = body_email req"
  shows "register_user L salt req s = (json 400 (Message ''Username or email already exists''), s)"
proof -
  from assms have "find_username_or_email (users s) (body_username req) (body_email req) \<noteq> None"
    unfolding find_username_or_email_def by (auto simp: find_None_iff)
  then show ?thesis
    by (auto simp: register_user_def)
qed

lemma register_fresh:
  assumes "bcrypt_nonempty L"
    and "body_username req = Some un" "un \<noteq> []" "body_email req = Some em" "em \<noteq> []"
    and "body_password req = Some pw"
    and "\<forall>x\<in>set (users s). username x \<noteq> un \<and> email x \<noteq> em"
  shows "register_user L salt req s =
           (json 201 (Message ''User registered successfully''),
            s\<lparr>users := users s @
                  [\<lparr>user_id = next_oid s, username = un, email = em,
                    password = bcrypt_hash L pw 10 salt, profileImage = file_name req\<rparr>],
              next_oid := Suc (next_oid s)\<rparr>)"
proof -
  have none: "find_username_or_email (users s) (body_username req) (body_email req) = None"
    unfolding find_username_or_email_def using assms(2,4,7) by (auto simp: find_None_iff)
  have hash: "bcrypt_hash L pw 10 salt \<noteq> []"
    using assms(1) by (simp add: bcrypt_nonempty_def)
  have uniq: "\<not> unique_violation (users s)
        \<lparr>user_id = next_oid s, username = un, email = em,
         password = bcrypt_hash L pw 10 salt, profileImage = file_name req\<rparr>"
    using assms(7) by (auto simp: unique_violation_def list_ex_iff)
  show ?thesis
    using none hash uniq assms(2-6)
    by (simp add: register_user_def save_new_user_def validate_user_def hashPassword_def)
qed

text \<open>
  C4. A registration that supplies a non-empty username, a non-empty email and a password,
  neither name nor email being stored yet, is answered 201 and appends exactly one user.
  A registration whose username or email is already stored is answered 400 and leaves
  the database as it was; so after a first registration, a second one with the same
  email or username gets 400 and the store holds exactly one user with that email.
\<close>

theorem register_unique:
  "(bcrypt_nonempty L \<and> body_username req = Some un \<and> un \<noteq> [] \<and>
    body_email req = Some em \<and> em \<noteq> [] \<and> body_password req = Some pw \<and>
    (\<forall>x\<in>set (users s). username x \<noteq> un \<and> email x \<noteq> em) \<longrightarrow>
      (\<exists>nu s1. register_user L salt req s =
                  (json 201 (Message ''User registered successfully''), s1) \<and>
               users s1 = users s @ [nu] \<and> username nu = un \<and> email nu = em \<and>
               length (users s1) = Suc (length (users s)) \<and>
               (body_email req2 = Some em \<or> body_username req2 = Some un \<longrightarrow>
                  register_user L salt2 req2 s1 =
                    (json 400 (Message ''Username or email already exists''), s1) \<and>
                  length (filter (\<lambda>x. email x = em) (users s1)) = 1 \<and>
                  length (filter (\<lambda>x. username x = un) (users s1)) = 1))) \<and>
   ((\<exists>x\<in>set (users s). Some (username x) = body_username req \<or>
                         Some (email x) = body_email req) \<longrightarrow>
      register_user L salt req s =
        (json 400 (Message ''Username or email already exists''), s))"
proof (intro conjI impI)
  assume h: "bcrypt_nonempty L \<and> body_username req = Some un \<and> un \<noteq> [] \<and>
    body_email req = Some em \<and> em \<noteq> [] \<and> body_password req = Some pw \<and>
    (\<forall>x\<in>set (users s). username x \<noteq> un \<and> email x \<noteq> em)"
  let ?nu = "\<lparr>user_id = next_oid s, username = un, email = em,
               password = bcrypt_hash L pw 10 salt, profileImage = file_name req\<rparr>"
  let ?s1 = "s\<lparr>users := users s @ [?nu], next_oid := Suc (next_oid s)\<rparr>"
  from h have reg: "register_user L salt req s =
      (json 201 (Message ''User registered successfully''), ?s1)"
    using register_fresh [of L req un em pw s salt] by simp
  have cnt: "filter (\<lambda>x. email x = em) (users s) = []" "filter (\<lambda>x. username x = un) (users s) = []"
    using h by (auto simp: filter_empty_conv)
  have second: "register_user L salt2 req2 ?s1 =
      (json 400 (Message ''Username or email already exists''), ?s1)"
    if "body_email req2 = Some em \<or> body_username req2 = Some un"
    using that register_conflict [of ?s1 req2 L salt2] by auto
  show "\<exists>nu s1. register_user L salt req s =
                  (json 201 (Message ''User registered successfully''), s1) \<and>
               users s1 = users s @ [nu] \<and> username nu = un \<and> email nu = em \<and>
               length (users s1) = Suc (length (users s)) \<and>
               (body_email req2 = Some em \<or> body_username req2 = Some un \<longrightarrow>
                  register_user L salt2 req2 s1 =
                    (json 400 (Message ''Username or email already exists''), s1) \<and>
                  length (filter (\<lambda>x. email x = em) (users s1)) = 1 \<and>
                  length (filter (\<lambda>x. username x = un) (users s1)) = 1)"
    apply (rule exI [of _ ?nu], rule exI [of _ ?s1])
    using reg cnt second by simp
next
  assume "\<exists>x\<in>set (users s). Some (username x) = body_username req \<or>
                         Some (email x) = body_email req"
  then show "register_user L salt req s =
        (json 400 (Message ''Username or email already exists''), s)"
    by (rule register_conflict)
qed

theorem register_unique_witness:
  "(\<exists>nu s1. register_user ref_libs ''s'' reg_alice empty_db =
              (json 201 (Message ''User registered successfully''), s1) \<and>
            users s1 = [nu] \<and> username nu = ''alice'' \<and> email nu = ''a@x.com'' \<and>
            register_user ref_libs ''t'' (reg_alice\<lparr>body_username := Some ''alice2''\<rparr>) s1 =
              (json 400 (Message ''Username or email already exists''), s1) \<and>
            length (filter (\<lambda>x. email x = ''a@x.com'') (users s1)) = 1) \<and>
   register_user ref_libs ''s'' reg_alice shop_db =
     (json 400 (Message ''Username or email already exists''), shop_db)"
proof -
  have pre: "bcrypt_nonempty ref_libs \<and> body_username reg_alice = Some ''alice'' \<and> ''alice'' \<noteq> [] \<and>
    body_email reg_alice = Some ''a@x.com'' \<and> ''a@x.com'' \<noteq> [] \<and>
    body_password reg_alice = Some ''pw1'' \<and>
    (\<forall>x\<in>set (users empty_db). username x \<noteq> ''alice'' \<and> email x \<noteq> ''a@x.com'')"
    by (simp add: ref_nonempty reg_alice_def empty_db_def)
  have same: "body_email (reg_alice\<lparr>body_username := Some ''alice2''\<rparr>) = Some ''a@x.com''"
    by (simp add: reg_alice_def)
  have taken: "\<exists>x\<in>set (users shop_db). Some (username x) = body_username reg_alice \<or>
                         Some (email x) = body_email reg_alice"
    by (simp add: shop_db_def alice_def reg_alice_def)
  from pre same have first: "\<exists>nu s1. register_user ref_libs ''s'' reg_alice empty_db =
              (json 201 (Message ''User registered successfully''), s1) \<and>
            users s1 = users empty_db @ [nu] \<and> username nu = ''alice'' \<and> email nu = ''a@x.com'' \<and>
            register_user ref_libs ''t'' (reg_alice\<lparr>body_username := Some ''alice2''\<rparr>) s1 =
              (json 400 (Message ''Username or email already exists''), s1) \<and>
            length (filter (\<lambda>x. email x = ''a@x.com'') (users s1)) = 1"
    using register_unique [where L = ref_libs and req = reg_alice and un = "''alice''"
        and em = "''a@x.com''" and pw = "''pw1''" and s = empty_db and salt = "''s''"
        and ?salt2.0 = "''t''" and ?req2.0 = "reg_alice\<lparr>body_username := Some ''alice2''\<rparr>"]
    by blast
  from taken have second: "register_user ref_libs ''s'' reg_alice shop_db =
     (json 400 (Message ''Username or email already exists''), shop_db)"
    using register_unique [where L = ref_libs and req = reg_alice and s = shop_db and salt = "''s''"]
    by blast
  from first second show ?thesis
    by (simp add: empty_db_def)
qed

lemma update_user_ok:
  assumes "update_user L salt req s = (r, s')" and "res_status r = 200"
  shows "\<exists>i old new. param_id req = Some i \<and> findById_user (users s) i = Some old \<and>
           findById_user (users s') i = Some new \<and> res_body r = UserDoc new \<and>
           password new = (case body_password req of
                             None \<Rightarrow> password old
                           | Some pw \<Rightarrow> if pw = [] then password old
                                        else bcrypt_hash L pw 10 salt)"
proof -
  from assms obtain i where i: "param_id req = Some i"
    by (cases "param_id req") (auto simp: update_user_def json_def)
  from assms i obtain old where old: "findById_user (users s) i = Some old"
    by (cases "findById_user (users s) i") (auto simp: update_user_def json_def)
  have f: "List.find (\<lambda>x. user_id x = i) (users s) = Some old"
    using old by (simp add: findById_user_def)
  then have idold: "user_id old = i"
    using find_Some_P [OF f] by simp
  define u1 where "u1 = old\<lparr>username := or_else (body_username req) (username old),
                          email := or_else (body_email req) (email old)\<rparr>"
  define u2 where "u2 = (case body_password req of
                           None \<Rightarrow> u1
                         | Some pw \<Rightarrow> if pw = [] then u1
                                      else u1\<lparr>password := hashPassword L salt pw\<rparr>)"
  define u3 where "u3 = (if truthy_str (file_name req)
                         then u2\<lparr>profileImage := file_name req\<rparr> else u2)"
  have id3: "user_id u3 = i"
    using idold by (simp add: u3_def u2_def u1_def split: option.splits)
  have pw3: "password u3 = (case body_password req of
                             None \<Rightarrow> password old
                           | Some pw \<Rightarrow> if pw = [] then password old
                                        else bcrypt_hash L pw 10 salt)"
    by (simp add: u3_def u2_def u1_def hashPassword_def split: option.splits)
  have run: "update_user L salt req s =
      (case save_user u3 s of
         None \<Rightarrow> (json 500 (Message ''Failed to update user''), s)
       | Some s' \<Rightarrow> (json 200 (UserDoc u3), s'))"
    using i old unfolding update_user_def u3_def u2_def u1_def Let_def by simp
  with assms obtain s1 where s1: "save_user u3 s = Some s1" "r = json 200 (UserDoc u3)" "s' = s1"
    by (cases "save_user u3 s") (auto simp: json_def)
  then have "users s' = update_first (\<lambda>x. user_id x = i) u3 (users s)"
    using id3 by (auto simp: save_user_def split: if_splits)
  then have "findById_user (users s') i = Some u3"
    using find_update_first [OF f, of u3] id3 by (simp add: findById_user_def)
  with i old s1 pw3 show ?thesis
    by (auto simp: json_def)
qed

text \<open>
  C6. After a registration answered 201 the stored password is the bcrypt hash (ten
  rounds) of the password sent; after an update answered 200 the stored password is the
  hash of the password sent when a non-empty one was sent, and the hash stored before
  when none (or an empty one) was sent. With a hash function that never returns its
  input, the stored password is never the plaintext.
\<close>

theorem password_hashed:
  "(register_user L salt req s = (r, s') \<and> res_status r = 201 \<longrightarrow>
      (\<exists>pw nu. body_password req = Some pw \<and> users s' = users s @ [nu] \<and>
               password nu = bcrypt_hash L pw 10 salt \<and>
               (bcrypt_not_identity L \<longrightarrow> password nu \<noteq> pw))) \<and>
   (update_user L salt req s = (r, s') \<and> res_status r = 200 \<longrightarrow>
      (\<exists>i old new. param_id req = Some i \<and> findById_user (users s) i = Some old \<and>
           findById_user (users s') i = Some new \<and> res_body r = UserDoc new \<and>
           (case body_password req of
              None \<Rightarrow> password new = password old
            | Some pw \<Rightarrow>
                if pw = [] then password new = password old
                else password new = bcrypt_hash L pw 10 salt \<and>
                     (bcrypt_not_identity L \<longrightarrow> password new \<noteq> pw))))"
proof (intro conjI impI)
  assume a: "register_user L salt req s = (r, s') \<and> res_status r = 201"
  then show "\<exists>pw nu. body_password req = Some pw \<and> users s' = users s @ [nu] \<and>
               password nu = bcrypt_hash L pw 10 salt \<and>
               (bcrypt_not_identity L \<longrightarrow> password nu \<noteq> pw)"
    by (auto simp: register_user_def save_new_user_def json_def hashPassword_def
          bcrypt_not_identity_def split: option.splits if_splits)
next
  assume a: "update_user L salt req s = (r, s') \<and> res_status r = 200"
  then obtain i old new where
    b: "param_id req = Some i" "findById_user (users s) i = Some old"
       "findById_user (users s') i = Some new" "res_body r = UserDoc new"
       "password new = (case body_password req of
                             None \<Rightarrow> password old
                           | Some pw \<Rightarrow> if pw = [] then password old
                                        else bcrypt_hash L pw 10 salt)"
    using update_user_ok [of L salt req s r s'] by blast
  show "\<exists>i old new. param_id req = Some i \<and> findById_user (users s) i = Some old \<and>
           findById_user (users s') i = Some new \<and> res_body r = UserDoc new \<and>
           (case body_password req of
              None \<Rightarrow> password new = password old
            | Some pw \<Rightarrow>
                if pw = [] then password new = password old
                else password new = bcrypt_hash L pw 10 salt \<and>
                     (bcrypt_not_identity L \<longrightarrow> password new \<noteq> pw))"
    apply (rule exI [of _ i], rule exI [of _ old], rule exI [of _ new])
    using b by (auto simp: bcrypt_not_identity_def split: option.splits)
qed

theorem password_hashed_witness:
  "(\<exists>nu s1. register_user ref_libs ''s'' reg_alice empty_db
              = (json 201 (Message ''User registered successfully''), s1) \<and>
            users s1 = [nu] \<and> password nu = ref_hash ''pw1'' 10 ''s'' \<and> password nu \<noteq> ''pw1'') \<and>
   (\<exists>new. fst (update_user ref_libs ''t''
                (no_request\<lparr>param_id := Some 1, body_password := Some ''pw3''\<rparr>) shop_db)
              = json 200 (UserDoc new) \<and>
          password new = ref_hash ''pw3'' 10 ''t'' \<and> password new \<noteq> ''pw3'') \<and>
   (\<exists>new. fst (update_user ref_libs ''t''
                (no_request\<lparr>param_id := Some 1, body_email := Some ''al@x.com''\<rparr>) shop_db)
              = json 200 (UserDoc new) \<and>
          password new = password alice)"
proof -
  let ?s1 = "empty_db\<lparr>users := [\<lparr>user_id = 0, username = ''alice'', email = ''a@x.com'',
                 password = ref_hash ''pw1'' 10 ''s'', profileImage = None\<rparr>], next_oid := 1\<rparr>"
  have reg: "register_user ref_libs ''s'' reg_alice empty_db
               = (json 201 (Message ''User registered successfully''), ?s1)"
    by (simp add: register_user_def reg_alice_def empty_db_def no_request_def
          find_username_or_email_def save_new_user_def validate_user_def unique_violation_def
          hashPassword_def ref_libs_def ref_hash_def)
  have "res_status (json 201 (Message ''User registered successfully'')) = 201"
    by (simp add: json_def)
  with reg have a: "\<exists>pw nu. body_password reg_alice = Some pw \<and> users ?s1 = users empty_db @ [nu] \<and>
       password nu = bcrypt_hash ref_libs pw 10 ''s'' \<and>
       (bcrypt_not_identity ref_libs \<longrightarrow> password nu \<noteq> pw)"
    using password_hashed [where L = ref_libs and salt = "''s''" and req = reg_alice
        and s = empty_db and r = "json 201 (Message ''User registered successfully'')"
        and s' = ?s1]
    by blast
  let ?r2 = "no_request\<lparr>param_id := Some 1, body_password := Some ''pw3''\<rparr>"
  let ?r3 = "no_request\<lparr>param_id := Some 1, body_email := Some ''al@x.com''\<rparr>"
  have ok2: "res_status (fst (update_user ref_libs ''t'' ?r2 shop_db)) = 200"
    by (simp add: update_user_def no_request_def shop_db_def findById_user_def alice_def bob_def
          Let_def save_user_def validate_user_def unique_violation_def hashPassword_def
          ref_libs_def ref_hash_def json_def)
  have ok3: "res_status (fst (update_user ref_libs ''t'' ?r3 shop_db)) = 200"
    by (simp add: update_user_def no_request_def shop_db_def findById_user_def alice_def bob_def
          Let_def save_user_def validate_user_def unique_violation_def hashPassword_def
          ref_libs_def ref_hash_def json_def)
  have old: "findById_user (users shop_db) 1 = Some alice"
    by (simp add: findById_user_def shop_db_def alice_def)
  from ok2 old have b: "\<exists>new. res_body (fst (update_user ref_libs ''t'' ?r2 shop_db)) = UserDoc new \<and>
      password new = bcrypt_hash ref_libs ''pw3'' 10 ''t'' \<and>
      (bcrypt_not_identity ref_libs \<longrightarrow> password new \<noteq> ''pw3'')"
    using password_hashed [where L = ref_libs and salt = "''t''" and req = ?r2 and s = shop_db
        and r = "fst (update_user ref_libs ''t'' ?r2 shop_db)"
        and s' = "snd (update_user ref_libs ''t'' ?r2 shop_db)"]
    by auto
  from ok3 old have c: "\<exists>new. res_body (fst (update_user ref_libs ''t'' ?r3 shop_db)) = UserDoc new \<and>
      password new = password alice"
    using password_hashed [where L = ref_libs and salt = "''t''" and req = ?r3 and s = shop_db
        and r = "fst (update_user ref_libs ''t'' ?r3 shop_db)"
        and s' = "snd (update_user ref_libs ''t'' ?r3 shop_db)"]
    by (auto simp: no_request_def)
  have body: "res_status r = 200 \<Longrightarrow> res_body r = b \<Longrightarrow> r = json 200 b" for r b
    by (cases r) (simp add: json_def)
  from a reg b c ok2 ok3 show ?thesis
    using ref_not_identity body
    by (auto simp: reg_alice_def empty_db_def ref_libs_def)
qed

text \<open>
  Two failing logins against the same users that both send a password, one with an email
  no user has, the other with a user's email and a password that \<^verbatim>\<open>bcrypt.compare\<close>
  rejects, get the same response: 400 with the message \<^verbatim>\<open>Invalid email or password\<close>.
\<close>

lemma login_failures_alike:
  "find_email (users s) (body_email r1) = None \<and>
   find_email (users s) (body_email r2) = Some u \<and>
   body_password r2 = Some pw \<and> \<not> bcrypt_compare L pw (password u) \<longrightarrow>
     login L e c1 r1 s = login L e c2 r2 s \<and>
     login L e c1 r1 s = (json 400 (Message ''Invalid email or password''), s)"
  by (simp add: login_def)

text \<open>
  A login that sends no password: with a user's email \<^verbatim>\<open>bcrypt.compare\<close> throws and the
  answer is 500, with an unknown email it is 400.
\<close>

lemma login_without_password:
  assumes "find_email (users s) (body_email r1) = None"
    and "find_email (users s) (body_email r2) = Some u"
    and "body_password r2 = None"
  shows "login L e c1 r1 s = (json 400 (Message ''Invalid email or password''), s)"
    and "login L e c2 r2 s = (json 500 (Message ''Login failed''), s)"
  using assms by (simp_all add: login_def)

text \<open>
  C9. Failing logins are not all answered alike: of two logins that send an email and no
  password, the one with the email of a registered user is answered 500 with
  \<^verbatim>\<open>Login failed\<close> and the one with an unknown email 400 with
  \<^verbatim>\<open>Invalid email or password\<close>, so the response tells whether the email is registered.
\<close>

theorem login_reveals_registered_email:
  "login ref_libs env0 5 (no_request\<lparr>body_email := Some ''a@x.com''\<rparr>) shop_db
     = (json 500 (Message ''Login failed''), shop_db) \<and>
   login ref_libs env0 5 (no_request\<lparr>body_email := Some ''z@x.com''\<rparr>) shop_db
     = (json 400 (Message ''Invalid email or password''), shop_db) \<and>
   json 500 (Message ''Login failed'') \<noteq> json 400 (Message ''Invalid email or password'')"
  by (simp add: login_def find_email_def shop_db_def alice_def bob_def no_request_def json_def)

text \<open>
  C10. \<^verbatim>\<open>GET /api/users\<close> answers with the stored user documents, every stored user
  among them, and \<^verbatim>\<open>GET /api/users/:_id\<close> with the document the id resolves to; the
  documents are the stored records, password hash included.
\<close>

theorem users_read_full:
  "get_users req s = (json 200 (UserList (users s)), s) \<and>
   (\<forall>u\<in>set (users s). \<exists>us. get_users req s = (json 200 (UserList us), s) \<and> u \<in> set us \<and>
      map password us = map password (users s)) \<and>
   (param_id req = Some i \<and> findById_user (users s) i = Some u \<longrightarrow>
      get_user req s = (json 200 (UserDoc u), s) \<and> u \<in> set (users s))"
  using find_Some_P [of "\<lambda>x. user_id x = i" "users s" u]
  by (auto simp: get_users_def get_user_def findById_user_def)

theorem users_read_full_witness:
  "(\<exists>us. get_users no_request shop_db = (json 200 (UserList us), shop_db) \<and> alice \<in> set us) \<and>
   get_user (no_request\<lparr>param_id := Some 2\<rparr>) shop_db = (json 200 (UserDoc bob), shop_db) \<and>
   password bob = ref_hash ''pw2'' 10 ''s''"
proof -
  have a: "alice \<in> set (users shop_db)"
    by (simp add: shop_db_def)
  have b: "param_id (no_request\<lparr>param_id := Some 2\<rparr>) = Some 2 \<and>
           findById_user (users shop_db) 2 = Some bob"
    by (simp add: findById_user_def shop_db_def alice_def bob_def)
  from a b show ?thesis
    using users_read_full [where s = shop_db and req = no_request]
      users_read_full [where s = shop_db and req = "no_request\<lparr>param_id := Some 2\<rparr>"
        and i = 2 and u = bob]
    by (auto simp: bob_def)
qed

section \<open>Products: the name filter and the update\<close>










subsection \<open>The update of a product\<close>

lemma or_else_nonempty: "d \<noteq> [] \<Longrightarrow> or_else f d \<noteq> []"
  by (cases f) auto

lemma or_else_eq:
  "or_else f d = (if truthy_str f then field_text f else d)"
  by (cases f) auto

lemma partial_merge_valid: "validate_product p \<Longrightarrow> validate_product (partial_merge req p pr)"
  by (cases "body_name req"; cases "body_category req"; cases "body_description req")
     (auto simp: validate_product_def partial_merge_def)

text \<open>The update when the price to write is known, and when its cast fails.\<close>

lemma update_product_merge:
  assumes "param_id req = Some i" and "findById_product (products s) i = Some p"
    and "validate_product p"
    and "(if truthy (body_price req) then cast_number L (body_price req)
          else Some (price p)) = Some pr"
  shows "update_product L req s =
           (json 200 (ProductDoc (partial_merge req p pr)),
            s\<lparr>products := update_first (\<lambda>x. product_id x = i) (partial_merge req p pr)
                             (products s)\<rparr>) \<and>
         findById_product
           (update_first (\<lambda>x. product_id x = i) (partial_merge req p pr) (products s)) i
           = Some (partial_merge req p pr)"
proof -
  define p1 where "p1 = p\<lparr>name := or_else (body_name req) (name p),
                          price := pr,
                          category := or_else (body_category req) (category p),
                          description := or_else (body_description req) (description p)\<rparr>"
  define p2 where "p2 = (if truthy_str (file_name req) then p1\<lparr>image_name := file_name req\<rparr> else p1)"
  have f: "List.find (\<lambda>x. product_id x = i) (products s) = Some p"
    using assms(2) by (simp add: findById_product_def)
  have idp: "product_id p = i"
    using find_Some_P [OF f] by simp
  have p2_eq: "p2 = partial_merge req p pr"
    by (cases p) (simp add: p2_def p1_def partial_merge_def or_else_eq)
  have valid: "validate_product p2"
    unfolding p2_eq using assms(3) by (rule partial_merge_valid)
  have run: "update_product L req s =
      (json 200 (ProductDoc p2),
       s\<lparr>products := update_first (\<lambda>x. product_id x = i) p2 (products s)\<rparr>)"
    using assms(1,2,4) valid unfolding update_product_def p2_def p1_def Let_def by simp
  have found: "findById_product (update_first (\<lambda>x. product_id x = i) p2 (products s)) i = Some p2"
    using find_update_first [OF f, of p2] idp
    by (simp add: findById_product_def p2_eq partial_merge_def)
  from run found show ?thesis
    unfolding p2_eq by simp
qed

lemma update_product_cast_fails:
  assumes "param_id req = Some i" and "findById_product (products s) i = Some p"
    and "truthy (body_price req)" and "cast_number L (body_price req) = None"
  shows "update_product L req s = (json 400 ErrorMessage, s)"
  using assms by (simp add: update_product_def)

text \<open>The handlers keep every stored product valid.\<close>

lemma list_all_update_first:
  "list_all P xs \<Longrightarrow> P y \<Longrightarrow> list_all P (update_first Q y xs)"
  by (induction xs) auto

lemma list_all_remove_first:
  "list_all P xs \<Longrightarrow> list_all P (remove_first Q xs)"
  by (induction xs) auto

lemma products_stay_valid:
  assumes "list_all validate_product (products s)"
  shows "list_all validate_product (products (snd (create_product L req s)))"
    and "list_all validate_product (products (snd (update_product L req s)))"
    and "list_all validate_product (products (snd (delete_product req s)))"
  using assms
  by (auto simp: create_product_def update_product_def delete_product_def Let_def
        list_all_update_first list_all_remove_first split: option.splits)

text \<open>
  C7, amended. An update of an existing product (stored products are valid: name,
  category and description are not empty) writes name, category and description exactly
  where the request holds a non-empty string for them, and the price exactly where the
  request holds a number that is neither zero nor NaN, or a non-empty string that
  \<^verbatim>\<open>Number\<close> converts to a number, which is then written even when it is 0. Every other
  field keeps its prior value: a field that is absent or the empty string, and a price
  that is the number 0. A price that is a non-empty string \<^verbatim>\<open>Number\<close> does not convert
  is answered 400 and nothing is written. With only \<^verbatim>\<open>{price: 10}\<close> the price becomes 10
  and name, category, description and image stay.
\<close>

theorem product_partial_update:
  "(param_id req = Some i \<and> findById_product (products s) i = Some p \<and> validate_product p \<longrightarrow>
     (\<not> truthy (body_price req) \<longrightarrow>
        update_product L req s =
          (json 200 (ProductDoc (partial_merge req p (price p))),
           s\<lparr>products := update_first (\<lambda>x. product_id x = i)
                            (partial_merge req p (price p)) (products s)\<rparr>)) \<and>
     (body_price req = JNum d \<and> \<not> is_zero d \<and> \<not> is_nan d \<longrightarrow>
        update_product L req s =
          (json 200 (ProductDoc (partial_merge req p d)),
           s\<lparr>products := update_first (\<lambda>x. product_id x = i)
                            (partial_merge req p d) (products s)\<rparr>)) \<and>
     (body_price req = JStr t \<and> t \<noteq> [] \<and> \<not> is_nan (js_Number L t) \<longrightarrow>
        update_product L req s =
          (json 200 (ProductDoc (partial_merge req p (js_Number L t))),
           s\<lparr>products := update_first (\<lambda>x. product_id x = i)
                            (partial_merge req p (js_Number L t)) (products s)\<rparr>)) \<and>
     (body_price req = JStr t \<and> t \<noteq> [] \<and> is_nan (js_Number L t) \<longrightarrow>
        update_product L req s = (json 400 ErrorMessage, s)) \<and>
     (body_price req = JNum num_10 \<and> body_name req = None \<and> body_category req = None \<and>
      body_description req = None \<and> file_name req = None \<longrightarrow>
        update_product L req s =
          (json 200 (ProductDoc (p\<lparr>price := num_10\<rparr>)),
           s\<lparr>products := update_first (\<lambda>x. product_id x = i) (p\<lparr>price := num_10\<rparr>)
                            (products s)\<rparr>)) \<and>
     (\<forall>pr. findById_product
             (update_first (\<lambda>x. product_id x = i) (partial_merge req p pr) (products s)) i
           = Some (partial_merge req p pr)))"
proof (intro impI conjI allI)
  assume h: "param_id req = Some i \<and> findById_product (products s) i = Some p \<and> validate_product p"
  assume "\<not> truthy (body_price req)"
  then show "update_product L req s =
          (json 200 (ProductDoc (partial_merge req p (price p))),
           s\<lparr>products := update_first (\<lambda>x. product_id x = i)
                            (partial_merge req p (price p)) (products s)\<rparr>)"
    using h update_product_merge [of req i s p L "price p"] by simp
next
  assume h: "param_id req = Some i \<and> findById_product (products s) i = Some p \<and> validate_product p"
  assume "body_price req = JNum d \<and> \<not> is_zero d \<and> \<not> is_nan d"
  then show "update_product L req s =
          (json 200 (ProductDoc (partial_merge req p d)),
           s\<lparr>products := update_first (\<lambda>x. product_id x = i)
                            (partial_merge req p d) (products s)\<rparr>)"
    using h update_product_merge [of req i s p L d] by simp
next
  assume h: "param_id req = Some i \<and> findById_product (products s) i = Some p \<and> validate_product p"
  assume "body_price req = JStr t \<and> t \<noteq> [] \<and> \<not> is_nan (js_Number L t)"
  then show "update_product L req s =
          (json 200 (ProductDoc (partial_merge req p (js_Number L t))),
           s\<lparr>products := update_first (\<lambda>x. product_id x = i)
                            (partial_merge req p (js_Number L t)) (products s)\<rparr>)"
    using h update_product_merge [of req i s p L "js_Number L t"] by simp
next
  assume h: "param_id req = Some i \<and> findById_product (products s) i = Some p \<and> validate_product p"
  assume "body_price req = JStr t \<and> t \<noteq> [] \<and> is_nan (js_Number L t)"
  then show "update_product L req s = (json 400 ErrorMessage, s)"
    using h update_product_cast_fails [of req i s p L] by simp
next
  assume h: "param_id req = Some i \<and> findById_product (products s) i = Some p \<and> validate_product p"
  assume a: "body_price req = JNum num_10 \<and> body_name req = None \<and> body_category req = None \<and>
      body_description req = None \<and> file_name req = None"
  then have "partial_merge req p num_10 = p\<lparr>price := num_10\<rparr>"
    by (cases p) (simp add: partial_merge_def)
  with a h show "update_product L req s =
          (json 200 (ProductDoc (p\<lparr>price := num_10\<rparr>)),
           s\<lparr>products := update_first (\<lambda>x. product_id x = i) (p\<lparr>price := num_10\<rparr>)
                            (products s)\<rparr>)"
    using update_product_merge [of req i s p L num_10] by (simp add: sample_doubles)
next
  fix pr
  assume h: "param_id req = Some i \<and> findById_product (products s) i = Some p \<and> validate_product p"
  then have f: "List.find (\<lambda>x. product_id x = i) (products s) = Some p"
    by (simp add: findById_product_def)
  have "product_id p = i"
    using find_Some_P [OF f] by simp
  then show "findById_product
             (update_first (\<lambda>x. product_id x = i) (partial_merge req p pr) (products s)) i
           = Some (partial_merge req p pr)"
    using find_update_first [OF f, of "partial_merge req p pr"]
    by (simp add: findById_product_def partial_merge_def)
qed

theorem product_partial_update_witness:
  "update_product ref_libs (no_request\<lparr>param_id := Some 3, body_price := JNum num_10\<rparr>) shop_db
     = (json 200 (ProductDoc (mug\<lparr>price := num_10\<rparr>)),
        shop_db\<lparr>products := [mug\<lparr>price := num_10\<rparr>]\<rparr>) \<and>
   update_product ref_libs
     (no_request\<lparr>param_id := Some 3, body_name := Some ''Cup'', body_category := Some []\<rparr>) shop_db
     = (json 200 (ProductDoc (mug\<lparr>name := ''Cup''\<rparr>)),
        shop_db\<lparr>products := [mug\<lparr>name := ''Cup''\<rparr>]\<rparr>) \<and>
   update_product ref_libs (no_request\<lparr>param_id := Some 3, body_price := JStr ''0''\<rparr>) shop_db
     = (json 200 (ProductDoc (mug\<lparr>price := 0\<rparr>)), shop_db\<lparr>products := [mug\<lparr>price := 0\<rparr>]\<rparr>) \<and>
   update_product ref_libs
     (no_request\<lparr>param_id := Some 3, body_name := Some ''Cup'', body_price := JStr ''abc''\<rparr>)
     shop_db
     = (json 400 ErrorMessage, shop_db)"
proof -
  let ?r1 = "no_request\<lparr>param_id := Some 3, body_price := JNum num_10\<rparr>"
  let ?r2 = "no_request\<lparr>param_id := Some 3, body_name := Some ''Cup'', body_category := Some []\<rparr>"
  let ?r3 = "no_request\<lparr>param_id := Some 3, body_price := JStr ''0''\<rparr>"
  let ?r4 = "no_request\<lparr>param_id := Some 3, body_name := Some ''Cup'', body_price := JStr ''abc''\<rparr>"
  have found: "findById_product (products shop_db) 3 = Some mug" "validate_product mug"
    by (simp_all add: findById_product_def shop_db_def mug_def validate_product_def)
  have n0: "ref_Number ''0'' = 0" "is_nan (ref_Number ''abc'')"
    by (simp_all add: ref_Number_def sample_doubles)
  have a: "update_product ref_libs ?r1 shop_db =
          (json 200 (ProductDoc (mug\<lparr>price := num_10\<rparr>)),
           shop_db\<lparr>products := update_first (\<lambda>x. product_id x = 3) (mug\<lparr>price := num_10\<rparr>)
                            (products shop_db)\<rparr>)"
    using found product_partial_update [where req = ?r1 and i = 3 and s = shop_db and p = mug
        and L = ref_libs]
    by (simp add: no_request_def)
  have b: "update_product ref_libs ?r2 shop_db =
          (json 200 (ProductDoc (partial_merge ?r2 mug (price mug))),
           shop_db\<lparr>products := update_first (\<lambda>x. product_id x = 3)
                            (partial_merge ?r2 mug (price mug)) (products shop_db)\<rparr>)"
    using found product_partial_update [where req = ?r2 and i = 3 and s = shop_db and p = mug
        and L = ref_libs]
    by (simp add: no_request_def)
  have c: "update_product ref_libs ?r3 shop_db =
          (json 200 (ProductDoc (partial_merge ?r3 mug (js_Number ref_libs ''0''))),
           shop_db\<lparr>products := update_first (\<lambda>x. product_id x = 3)
                            (partial_merge ?r3 mug (js_Number ref_libs ''0'')) (products shop_db)\<rparr>)"
    using found n0 product_partial_update [where req = ?r3 and i = 3 and s = shop_db and p = mug
        and L = ref_libs and t = "''0''"]
    by (simp add: ref_libs_def sample_doubles)
  have d: "update_product ref_libs ?r4 shop_db = (json 400 ErrorMessage, shop_db)"
    using found n0 product_partial_update [where req = ?r4 and i = 3 and s = shop_db and p = mug
        and L = ref_libs and t = "''abc''"]
    by (simp add: ref_libs_def)
  show ?thesis
    unfolding a b c d
    by (simp add: shop_db_def mug_def no_request_def partial_merge_def ref_libs_def n0)
qed

text \<open>An update that sends the number 0 as price leaves the price at 5.\<close>

theorem product_partial_update_counterexample:
  "update_product ref_libs (no_request\<lparr>param_id := Some 3, body_price := JNum 0\<rparr>) shop_db
     = (json 200 (ProductDoc mug), shop_db) \<and> price mug = num_5 \<and> num_5 \<noteq> 0"
  by (simp add: update_product_def shop_db_def findById_product_def mug_def Let_def
        validate_product_def no_request_def sample_doubles num_5_def)

section \<open>The order list\<close>

lemma findById_product_Some:
  "findById_product ps i = Some pr \<Longrightarrow> pr \<in> set ps \<and> product_id pr = i"
  using find_Some_P [of "\<lambda>p. product_id p = i" ps pr] by (simp add: findById_product_def)

lemma findById_product_None:
  "findById_product ps i = None \<Longrightarrow> \<forall>pr\<in>set ps. product_id pr \<noteq> i"
  by (auto simp: findById_product_def find_None_iff)

text \<open>
  C5, amended. For a caller the middleware let through, the list holds exactly the stored
  orders whose user reference is the caller's id, in stored order, each with the product
  its reference resolves to when the catalog has one and with none (null) otherwise. An
  order of another user never appears; an order just created by the caller appears in
  the caller's list and in no other user's.
\<close>

theorem orders_listing:
  "(authenticateToken L e clock req = Inr u \<longrightarrow>
     (\<exists>l. orders_api L e clock now GetOrders req s = (json 200 (PopulatedOrders l), s) \<and>
          map fst l = filter (\<lambda>x. userId x = claim_id u) (orders s) \<and>
          (\<forall>(x, p)\<in>set l.
             (case p of
                Some pr \<Rightarrow> pr \<in> set (products s) \<and> product_id pr = productId x
              | None \<Rightarrow> \<forall>pr\<in>set (products s). product_id pr \<noteq> productId x)) \<and>
          (\<forall>x\<in>set (orders s). userId x \<noteq> claim_id u \<longrightarrow> x \<notin> fst ` set l))) \<and>
   (create_order L now u req s = (json 201 (OrderDoc x), s1) \<longrightarrow>
     (\<exists>l. get_orders u req2 s1 = (json 200 (PopulatedOrders l), s1) \<and> x \<in> fst ` set l) \<and>
     (claim_id v \<noteq> claim_id u \<longrightarrow>
        (\<exists>l. get_orders v req2 s1 = (json 200 (PopulatedOrders l), s1) \<and> x \<notin> fst ` set l)))"
proof (intro conjI impI)
  assume a: "authenticateToken L e clock req = Inr u"
  let ?l = "map (populate (products s)) (filter (\<lambda>x. userId x = claim_id u) (orders s))"
  have run: "orders_api L e clock now GetOrders req s = (json 200 (PopulatedOrders ?l), s)"
    using a by (simp add: orders_api_def guarded_def get_orders_def)
  have fsts: "map fst ?l = filter (\<lambda>x. userId x = claim_id u) (orders s)"
    by (simp add: comp_def populate_def)
  have prods: "\<forall>(x, p)\<in>set ?l.
             (case p of
                Some pr \<Rightarrow> pr \<in> set (products s) \<and> product_id pr = productId x
              | None \<Rightarrow> \<forall>pr\<in>set (products s). product_id pr \<noteq> productId x)"
    using findById_product_Some findById_product_None
    by (fastforce simp: populate_def split: option.splits)
  have others: "\<forall>x\<in>set (orders s). userId x \<noteq> claim_id u \<longrightarrow> x \<notin> fst ` set ?l"
    by (auto simp: populate_def)
  show "\<exists>l. orders_api L e clock now GetOrders req s = (json 200 (PopulatedOrders l), s) \<and>
          map fst l = filter (\<lambda>x. userId x = claim_id u) (orders s) \<and>
          (\<forall>(x, p)\<in>set l.
             (case p of
                Some pr \<Rightarrow> pr \<in> set (products s) \<and> product_id pr = productId x
              | None \<Rightarrow> \<forall>pr\<in>set (products s). product_id pr \<noteq> productId x)) \<and>
          (\<forall>x\<in>set (orders s). userId x \<noteq> claim_id u \<longrightarrow> x \<notin> fst ` set l)"
    using run fsts prods others by blast
next
  assume a: "create_order L now u req s = (json 201 (OrderDoc x), s1)"
  then have x: "userId x = claim_id u" "orders s1 = orders s @ [x]"
    by (auto simp: create_order_def json_def Let_def split: option.splits)
  let ?l = "map (populate (products s1)) (filter (\<lambda>y. userId y = claim_id u) (orders s1))"
  have "x \<in> fst ` set ?l"
    using x by (force simp: populate_def)
  then show "\<exists>l. get_orders u req2 s1 = (json 200 (PopulatedOrders l), s1) \<and> x \<in> fst ` set l"
    unfolding get_orders_def by blast
next
  assume a: "create_order L now u req s = (json 201 (OrderDoc x), s1)"
    and v: "claim_id v \<noteq> claim_id u"
  then have x: "userId x = claim_id u"
    by (auto simp: create_order_def json_def Let_def split: option.splits)
  let ?l = "map (populate (products s1)) (filter (\<lambda>y. userId y = claim_id v) (orders s1))"
  have "x \<notin> fst ` set ?l"
    using x v by (auto simp: populate_def)
  then show "\<exists>l. get_orders v req2 s1 = (json 200 (PopulatedOrders l), s1) \<and> x \<notin> fst ` set l"
    unfolding get_orders_def by blast
qed

theorem orders_listing_witness:
  "orders_api ref_libs env0 200 7 GetOrders as_alice shop_db
     = (json 200 (PopulatedOrders [(alice_order, Some mug)]), shop_db) \<and>
   (\<exists>x s1 l. create_order ref_libs 7 alice_claims
                (no_request\<lparr>body_productId := Some 3, body_quantity := JNum num_1\<rparr>) shop_db
                = (json 201 (OrderDoc x), s1) \<and>
             get_orders bob_claims no_request s1 = (json 200 (PopulatedOrders l), s1) \<and>
             x \<notin> fst ` set l)"
proof -
  have auth: "authenticateToken ref_libs env0 200 as_alice = Inr alice_claims"
    using as_alice_authenticated [where i = "param_id as_alice" and p = "body_productId as_alice"
        and q = "body_quantity as_alice" and st = "body_status as_alice"
        and v = "body_userId as_alice"]
    by (simp add: alice_claims_def)
  from auth obtain l where
    l: "orders_api ref_libs env0 200 7 GetOrders as_alice shop_db
          = (json 200 (PopulatedOrders l), shop_db)"
       "map fst l = filter (\<lambda>x. userId x = claim_id alice_claims) (orders shop_db)"
    using orders_listing [where L = ref_libs and e = env0 and clock = 200 and req = as_alice
        and u = alice_claims and now = 7 and s = shop_db]
    by blast
  have first: "orders_api ref_libs env0 200 7 GetOrders as_alice shop_db
     = (json 200 (PopulatedOrders [(alice_order, Some mug)]), shop_db)"
    unfolding orders_api_def guarded_def auth
    by (simp add: get_orders_def shop_db_def alice_order_def bob_order_def populate_def
          findById_product_def mug_def alice_claims_def)
  let ?x = "\<lparr>order_id = 10, productId = 3, userId = 1, quantity = num_1,
             status = ''pending'', createdAt = 7\<rparr>"
  let ?s1 = "shop_db\<lparr>orders := orders shop_db @ [?x], next_oid := 11\<rparr>"
  have create: "create_order ref_libs 7 alice_claims
                (no_request\<lparr>body_productId := Some 3, body_quantity := JNum num_1\<rparr>) shop_db
                = (json 201 (OrderDoc ?x), ?s1)"
    by (simp add: create_order_def shop_db_def alice_claims_def Let_def sample_doubles)
  have "claim_id bob_claims \<noteq> claim_id alice_claims"
    by (simp add: bob_claims_def alice_claims_def)
  with create have "\<exists>l. get_orders bob_claims no_request ?s1 = (json 200 (PopulatedOrders l), ?s1) \<and>
                       ?x \<notin> fst ` set l"
    using orders_listing [where L = ref_libs and now = 7 and u = alice_claims
        and req = "no_request\<lparr>body_productId := Some 3, body_quantity := JNum num_1\<rparr>"
        and s = shop_db and x = ?x and ?s1.0 = ?s1 and v = bob_claims and ?req2.0 = no_request]
    by blast
  with first create show ?thesis by blast
qed

text \<open>Bob's order refers to a product the catalog does not hold: it is listed with no product.\<close>

theorem orders_listing_counterexample:
  "get_orders \<lparr>claim_id = 2, claim_username = ''bob'', iat = 0, exp = 3600\<rparr> no_request shop_db
     = (json 200 (PopulatedOrders [(bob_order, None)]), shop_db)"
  by (simp add: get_orders_def shop_db_def alice_order_def bob_order_def populate_def
        findById_product_def mug_def)

end
